theory Spec2Isabelle
  imports Main "HOL-Library.Sublist"
begin

section \<open>Data model (prisma schema and request types)\<close>

text \<open>
  The relational store of the rental API, restricted to the tables and columns the
  lifecycle handlers read or write. Rows generated with \<^verbatim>\<open>@default(uuid())\<close> carry an
  identifier of type \<open>ident\<close>; the identifiers of tenants and managers are the identity
  provider's subject strings. Dates are instants (milliseconds since the epoch); the
  bookkeeping columns \<^verbatim>\<open>createdAt\<close> and \<^verbatim>\<open>updatedAt\<close> are left out, as is every column
  of \<^verbatim>\<open>Property\<close> other than its key, its title and its owner. The table \<^verbatim>\<open>Tenant\<close> is
  the list of its keys.

  The database keeps the foreign keys of the rows it holds, so a key that a handler copies
  from a row it has read names an existing row. An insert can fail only on a key that
  comes from the request: the caller's id as \<^verbatim>\<open>Application.tenantId\<close>
  (\<^verbatim>\<open>Application_tenantId_fkey\<close>) and the body's \<^verbatim>\<open>propertyId\<close> as
  \<^verbatim>\<open>Payment.propertyId\<close> (\<^verbatim>\<open>Payment_propertyId_fkey\<close>). Prisma then throws, and the
  handler's \<^verbatim>\<open>catch\<close> answers 500 with nothing written.
\<close>

type_synonym ident = nat
type_synonym datetime = int

datatype ApplicationStatus = PENDING | APPROVED | REJECTED | WITHDRAWN

datatype LeaseStatus = ACTIVE | TERMINATED | COMPLETED | PENDING_SIGNATURE

datatype PaymentStatus = PAYMENT_PENDING | PAYMENT_COMPLETED | PAYMENT_FAILED | PAYMENT_REFUNDED

datatype PaymentType =
  RENT | SECURITY_DEPOSIT | APPLICATION_FEE | LATE_FEE | MAINTENANCE_CHARGE | REFUND

datatype PaymentMethod = BANK_TRANSFER | EASYPAY | JAZZCASH | CARD | WALLET | CASH

datatype Role = Tenant | Manager | Admin

record Property =
  prop_id :: ident
  prop_title :: string
  prop_managerId :: string

record Application =
  app_id :: ident
  app_propertyId :: ident
  app_tenantId :: string
  app_fullName :: string
  app_email :: string
  app_phoneNumber :: string
  app_message :: "string option"
  app_status :: ApplicationStatus

record Lease =
  lease_id :: ident
  lease_propertyId :: ident
  lease_tenantId :: string
  lease_applicationId :: "ident option"
  lease_startDate :: datetime
  lease_endDate :: datetime
  lease_rentAmount :: int
  lease_securityDeposit :: int
  lease_paymentDueDate :: int
  lease_leaseAgreementUrl :: "string option"
  lease_status :: LeaseStatus

record Payment =
  pay_id :: ident
  pay_tenantId :: string
  pay_leaseId :: "ident option"
  pay_propertyId :: "ident option"
  pay_amount :: int
  pay_paymentType :: PaymentType
  pay_method :: PaymentMethod
  pay_status :: PaymentStatus
  pay_paymentDate :: datetime
  pay_referenceId :: "string option"
  pay_note :: "string option"

record store =
  properties :: "Property list"
  tenants :: "string list"
  applications :: "Application list"
  leases :: "Lease list"
  payments :: "Payment list"

text \<open>\<^verbatim>\<open>req.user\<close>, as the authentication middleware attaches it.\<close>

record User =
  user_id :: string
  user_email :: string
  user_role :: Role
  user_emailVerified :: bool
  user_name :: "string option"
  user_phoneNumber :: "string option"

text \<open>Request bodies (\<^verbatim>\<open>CreateApplicationInput\<close>, \<^verbatim>\<open>CreateLeaseInput\<close>, \<^verbatim>\<open>CreatePaymentInput\<close>).\<close>

record CreateApplicationInput =
  cai_propertyId :: ident
  cai_fullName :: string
  cai_email :: string
  cai_phoneNumber :: string
  cai_message :: "string option"

record CreateLeaseInput =
  cli_propertyId :: ident
  cli_tenantId :: string
  cli_applicationId :: "ident option"
  cli_startDate :: datetime
  cli_endDate :: datetime
  cli_rentAmount :: int
  cli_securityDeposit :: int
  cli_paymentDueDate :: int
  cli_leaseAgreementUrl :: "string option"

record CreatePaymentInput =
  cpi_leaseId :: "ident option"
  cpi_propertyId :: "ident option"
  cpi_amount :: int
  cpi_paymentType :: PaymentType
  cpi_method :: PaymentMethod
  cpi_paymentDate :: datetime
  cpi_referenceId :: "string option"
  cpi_note :: "string option"

text \<open>
  The JSON error bodies, one constructor per \<^verbatim>\<open>code\<close>, with the \<^verbatim>\<open>data\<close> payload
  the handler attaches; \<open>http_status\<close> is the status the handler sets with it. The
  two codes with status 500 are those of the \<^verbatim>\<open>catch\<close> branches that a refused insert
  reaches.
\<close>

datatype error =
    AUTH_REQUIRED
  | ACCESS_DENIED
  | PROPERTY_NOT_FOUND
  | APPLICATION_EXISTS ident ApplicationStatus
  | APPLICATION_NOT_FOUND
  | INVALID_STATUS_FOR_WITHDRAWAL ApplicationStatus
  | INVALID_STATUS
  | INVALID_STATUS_FOR_UPDATE ApplicationStatus
  | LEASE_EXISTS ident LeaseStatus
  | LEASE_CONFLICT ident datetime datetime
  | LEASE_NOT_FOUND
  | INVALID_STATUS_TRANSITION LeaseStatus string "LeaseStatus list"
  | MISSING_REFERENCE
  | TENANT_REQUIRED
  | APPLICATION_SUBMIT_FAILED
  | PAYMENT_CREATE_FAILED
  | AUTH_TOKEN_MISSING
  | AUTH_TOKEN_EXPIRED
  | AUTH_TOKEN_INVALID
  | AUTH_FAILED

fun http_status :: "error \<Rightarrow> nat" where
  "http_status AUTH_REQUIRED = 401"
| "http_status ACCESS_DENIED = 403"
| "http_status PROPERTY_NOT_FOUND = 404"
| "http_status (APPLICATION_EXISTS i st) = 409"
| "http_status APPLICATION_NOT_FOUND = 404"
| "http_status (INVALID_STATUS_FOR_WITHDRAWAL st) = 400"
| "http_status INVALID_STATUS = 400"
| "http_status (INVALID_STATUS_FOR_UPDATE st) = 400"
| "http_status (LEASE_EXISTS i st) = 409"
| "http_status (LEASE_CONFLICT i s e) = 409"
| "http_status LEASE_NOT_FOUND = 404"
| "http_status (INVALID_STATUS_TRANSITION cur req allowed) = 400"
| "http_status MISSING_REFERENCE = 400"
| "http_status TENANT_REQUIRED = 400"
| "http_status APPLICATION_SUBMIT_FAILED = 500"
| "http_status PAYMENT_CREATE_FAILED = 500"
| "http_status AUTH_TOKEN_MISSING = 401"
| "http_status AUTH_TOKEN_EXPIRED = 401"
| "http_status AUTH_TOKEN_INVALID = 401"
| "http_status AUTH_FAILED = 401"

section \<open>Store queries\<close>

text \<open>
  \<^verbatim>\<open>@default(uuid())\<close>: the key of a new row. It is modelled as the least number above
  every key of the table, which no row of the table has.
\<close>

fun uuid :: "ident list \<Rightarrow> ident" where
  "uuid [] = 0"
| "uuid (i # is) = max (Suc i) (uuid is)"

text \<open>The relation filter \<^verbatim>\<open>property: { managerId }\<close>: the row's property belongs to the manager.\<close>

definition property_of_manager :: "store \<Rightarrow> ident \<Rightarrow> string \<Rightarrow> bool" where
  "property_of_manager s pid managerId =
     list_ex (\<lambda>p. prop_id p = pid \<and> prop_managerId p = managerId) (properties s)"

text \<open>
  \<^verbatim>\<open>Payment_propertyId_fkey\<close>: a \<^verbatim>\<open>propertyId\<close> that is not null names a row of
  \<^verbatim>\<open>Property\<close>.
\<close>

definition references_property :: "store \<Rightarrow> ident option \<Rightarrow> bool" where
  "references_property s propertyId =
     (case propertyId of
        None \<Rightarrow> True
      | Some pid \<Rightarrow> list_ex (\<lambda>p. prop_id p = pid) (properties s))"

text \<open>A \<^verbatim>\<open>where\<close> entry whose value is \<^verbatim>\<open>undefined\<close> filters nothing.\<close>

fun where_eq :: "'a option \<Rightarrow> 'a \<Rightarrow> bool" where
  "where_eq None x = True"
| "where_eq (Some v) x = (x = v)"

text \<open>
  \<^verbatim>\<open>prisma.lease.findFirst({ where: { id: leaseId, property: { managerId } } })\<close>, the
  ownership query of \<^verbatim>\<open>updateLeaseStatus\<close> and \<^verbatim>\<open>createPaymentRecord\<close>.
\<close>

definition lease_of_manager :: "store \<Rightarrow> ident \<Rightarrow> string \<Rightarrow> Lease option" where
  "lease_of_manager s leaseId managerId =
     List.find
       (\<lambda>l. lease_id l = leaseId \<and> property_of_manager s (lease_propertyId l) managerId)
       (leases s)"

text \<open>
  The application query of \<^verbatim>\<open>createLease\<close>:
  \<^verbatim>\<open>findFirst({ where: { id: leaseData.applicationId, status: "APPROVED", property: { managerId } } })\<close>.
  \<^verbatim>\<open>applicationId\<close> is optional in \<^verbatim>\<open>CreateLeaseSchema\<close>.
\<close>

definition approved_application ::
  "store \<Rightarrow> ident option \<Rightarrow> string \<Rightarrow> Application option" where
  "approved_application s applicationId managerId =
     List.find
       (\<lambda>a. where_eq applicationId (app_id a) \<and>
            app_status a = APPROVED \<and>
            property_of_manager s (app_propertyId a) managerId)
       (applications s)"

text \<open>
  The ownership queries of the application controller:
  \<^verbatim>\<open>findFirst({ where: { id: applicationId, tenantId } })\<close> of \<^verbatim>\<open>withdrawApplication\<close> and
  \<^verbatim>\<open>findFirst({ where: { id: applicationId, property: { managerId } } })\<close> of
  \<^verbatim>\<open>updateApplicationStatus\<close>.
\<close>

definition application_of_tenant :: "store \<Rightarrow> ident \<Rightarrow> string \<Rightarrow> Application option" where
  "application_of_tenant s applicationId tenantId =
     List.find (\<lambda>a. app_id a = applicationId \<and> app_tenantId a = tenantId) (applications s)"

definition application_of_manager :: "store \<Rightarrow> ident \<Rightarrow> string \<Rightarrow> Application option" where
  "application_of_manager s applicationId managerId =
     List.find
       (\<lambda>a. app_id a = applicationId \<and> property_of_manager s (app_propertyId a) managerId)
       (applications s)"

section \<open>Lease controller\<close>

text \<open>String names of the lease statuses, as they travel in request bodies.\<close>

fun LeaseStatus_name :: "LeaseStatus \<Rightarrow> string" where
  "LeaseStatus_name ACTIVE = ''ACTIVE''"
| "LeaseStatus_name TERMINATED = ''TERMINATED''"
| "LeaseStatus_name COMPLETED = ''COMPLETED''"
| "LeaseStatus_name PENDING_SIGNATURE = ''PENDING_SIGNATURE''"

definition createLease ::
  "User option \<Rightarrow> CreateLeaseInput \<Rightarrow> store \<Rightarrow> (error + Lease) \<times> store" where
  "createLease user leaseData s =
     (case user of
        None \<Rightarrow> (Inl AUTH_REQUIRED, s)
      | Some u \<Rightarrow>
          if user_role u \<noteq> Manager then (Inl ACCESS_DENIED, s)
          else
            (case approved_application s (cli_applicationId leaseData) (user_id u) of
               None \<Rightarrow> (Inl APPLICATION_NOT_FOUND, s)
             | Some application \<Rightarrow>
                 (case List.find
                         (\<lambda>l. lease_applicationId l = Some (app_id application))
                         (leases s) of
                    Some existingLease \<Rightarrow>
                      (Inl (LEASE_EXISTS (lease_id existingLease) (lease_status existingLease)), s)
                  | None \<Rightarrow>
                      (case List.find
                              (\<lambda>l. lease_propertyId l = app_propertyId application \<and>
                                   lease_status l = ACTIVE \<and>
                                   lease_startDate l \<le> cli_endDate leaseData \<and>
                                   lease_endDate l \<ge> cli_startDate leaseData)
                              (leases s) of
                         Some conflictingLease \<Rightarrow>
                           (Inl (LEASE_CONFLICT (lease_id conflictingLease)
                                   (lease_startDate conflictingLease)
                                   (lease_endDate conflictingLease)), s)
                       | None \<Rightarrow>
                           (let lease =
                                 \<lparr> lease_id = uuid (map lease_id (leases s)),
                                   lease_propertyId = app_propertyId application,
                                   lease_tenantId = app_tenantId application,
                                   lease_applicationId = Some (app_id application),
                                   lease_startDate = cli_startDate leaseData,
                                   lease_endDate = cli_endDate leaseData,
                                   lease_rentAmount = cli_rentAmount leaseData,
                                   lease_securityDeposit = cli_securityDeposit leaseData,
                                   lease_paymentDueDate = cli_paymentDueDate leaseData,
                                   lease_leaseAgreementUrl = cli_leaseAgreementUrl leaseData,
                                   lease_status = PENDING_SIGNATURE \<rparr>
                            in (Inr lease, s\<lparr>leases := leases s @ [lease]\<rparr>))))))"


definition validStatuses :: "string list" where
  "validStatuses = [''ACTIVE'', ''TERMINATED'', ''COMPLETED'']"

fun validTransitions :: "LeaseStatus \<Rightarrow> LeaseStatus list" where
  "validTransitions PENDING_SIGNATURE = [ACTIVE, TERMINATED]"
| "validTransitions ACTIVE = [TERMINATED, COMPLETED]"
| "validTransitions TERMINATED = []"
| "validTransitions COMPLETED = []"

text \<open>
  \<^verbatim>\<open>validTransitions[currentStatus].includes(status)\<close> compares the requested string
  with the names of the listed statuses; the listed status it names is the one written by
  \<^verbatim>\<open>prisma.lease.update({ where: { id }, data: { status } })\<close>.
\<close>

definition lease_update_status :: "ident \<Rightarrow> LeaseStatus \<Rightarrow> Lease list \<Rightarrow> Lease list" where
  "lease_update_status leaseId st ls =
     map (\<lambda>l. if lease_id l = leaseId then l\<lparr>lease_status := st\<rparr> else l) ls"

definition updateLeaseStatus ::
  "User option \<Rightarrow> ident \<Rightarrow> string \<Rightarrow> store \<Rightarrow> (error + Lease) \<times> store" where
  "updateLeaseStatus user leaseId status s =
     (case user of
        None \<Rightarrow> (Inl AUTH_REQUIRED, s)
      | Some u \<Rightarrow>
          if user_role u \<noteq> Manager then (Inl ACCESS_DENIED, s)
          else if status \<notin> set validStatuses then (Inl INVALID_STATUS, s)
          else
            (case lease_of_manager s leaseId (user_id u) of
               None \<Rightarrow> (Inl LEASE_NOT_FOUND, s)
             | Some lease \<Rightarrow>
                 (let currentStatus = lease_status lease in
                  case List.find (\<lambda>st. LeaseStatus_name st = status)
                         (validTransitions currentStatus) of
                    None \<Rightarrow>
                      (Inl (INVALID_STATUS_TRANSITION currentStatus status
                              (validTransitions currentStatus)), s)
                  | Some st \<Rightarrow>
                      (Inr (lease\<lparr>lease_status := st\<rparr>),
                       s\<lparr>leases := lease_update_status leaseId st (leases s)\<rparr>))))"

section \<open>Application controller\<close>

fun ApplicationStatus_name :: "ApplicationStatus \<Rightarrow> string" where
  "ApplicationStatus_name PENDING = ''PENDING''"
| "ApplicationStatus_name APPROVED = ''APPROVED''"
| "ApplicationStatus_name REJECTED = ''REJECTED''"
| "ApplicationStatus_name WITHDRAWN = ''WITHDRAWN''"

text \<open>
  \<^verbatim>\<open>prisma.application.create\<close> takes \<^verbatim>\<open>tenantId\<close> from the token. The route
  (\<^verbatim>\<open>authenticate\<close>, \<^verbatim>\<open>authorize("tenant")\<close>, \<^verbatim>\<open>validateRequest\<close>) does not look for the
  caller's \<^verbatim>\<open>Tenant\<close> row, so the insert is refused for a caller without one.
\<close>

definition submitApplication ::
  "User option \<Rightarrow> CreateApplicationInput \<Rightarrow> store \<Rightarrow> (error + Application) \<times> store" where
  "submitApplication user applicationData s =
     (case user of
        None \<Rightarrow> (Inl AUTH_REQUIRED, s)
      | Some u \<Rightarrow>
          if user_role u \<noteq> Tenant then (Inl ACCESS_DENIED, s)
          else
            (case List.find (\<lambda>p. prop_id p = cai_propertyId applicationData) (properties s) of
               None \<Rightarrow> (Inl PROPERTY_NOT_FOUND, s)
             | Some property \<Rightarrow>
                 (case List.find
                         (\<lambda>a. app_propertyId a = cai_propertyId applicationData \<and>
                              app_tenantId a = user_id u)
                         (applications s) of
                    Some existingApplication \<Rightarrow>
                      (Inl (APPLICATION_EXISTS (app_id existingApplication)
                              (app_status existingApplication)), s)
                  | None \<Rightarrow>
                      if user_id u \<notin> set (tenants s) then (Inl APPLICATION_SUBMIT_FAILED, s)
                      else
                        (let application =
                              \<lparr> app_id = uuid (map app_id (applications s)),
                                app_propertyId = cai_propertyId applicationData,
                                app_tenantId = user_id u,
                                app_fullName = cai_fullName applicationData,
                                app_email = cai_email applicationData,
                                app_phoneNumber = cai_phoneNumber applicationData,
                                app_message = cai_message applicationData,
                                app_status = PENDING \<rparr>
                         in (Inr application,
                             s\<lparr>applications := applications s @ [application]\<rparr>)))))"

text \<open>\<^verbatim>\<open>prisma.application.update({ where: { id }, data: { status } })\<close>.\<close>

definition application_update_status ::
  "ident \<Rightarrow> ApplicationStatus \<Rightarrow> Application list \<Rightarrow> Application list" where
  "application_update_status applicationId st as =
     map (\<lambda>a. if app_id a = applicationId then a\<lparr>app_status := st\<rparr> else a) as"

definition withdrawApplication ::
  "User option \<Rightarrow> ident \<Rightarrow> store \<Rightarrow> (error + Application) \<times> store" where
  "withdrawApplication user applicationId s =
     (case user of
        None \<Rightarrow> (Inl AUTH_REQUIRED, s)
      | Some u \<Rightarrow>
          if user_role u \<noteq> Tenant then (Inl ACCESS_DENIED, s)
          else
            (case application_of_tenant s applicationId (user_id u) of
               None \<Rightarrow> (Inl APPLICATION_NOT_FOUND, s)
             | Some application \<Rightarrow>
                 if app_status application \<noteq> PENDING
                 then (Inl (INVALID_STATUS_FOR_WITHDRAWAL (app_status application)), s)
                 else
                   (Inr (application\<lparr>app_status := WITHDRAWN\<rparr>),
                    s\<lparr>applications :=
                        application_update_status applicationId WITHDRAWN (applications s)\<rparr>)))"

text \<open>
  \<^verbatim>\<open>["APPROVED", "REJECTED"].includes(status)\<close> compares the requested string with the
  names of the two decisions; the decision it names is the status written.
\<close>

definition updateApplicationStatus ::
  "User option \<Rightarrow> ident \<Rightarrow> string \<Rightarrow> store \<Rightarrow> (error + Application) \<times> store" where
  "updateApplicationStatus user applicationId status s =
     (case user of
        None \<Rightarrow> (Inl AUTH_REQUIRED, s)
      | Some u \<Rightarrow>
          if user_role u \<noteq> Manager then (Inl ACCESS_DENIED, s)
          else
            (case List.find (\<lambda>st. ApplicationStatus_name st = status) [APPROVED, REJECTED] of
               None \<Rightarrow> (Inl INVALID_STATUS, s)
             | Some st \<Rightarrow>
                 (case application_of_manager s applicationId (user_id u) of
                    None \<Rightarrow> (Inl APPLICATION_NOT_FOUND, s)
                  | Some application \<Rightarrow>
                      if app_status application \<noteq> PENDING
                      then (Inl (INVALID_STATUS_FOR_UPDATE (app_status application)), s)
                      else
                        (Inr (application\<lparr>app_status := st\<rparr>),
                         s\<lparr>applications :=
                             application_update_status applicationId st (applications s)\<rparr>))))"

section \<open>Payment controller\<close>

text \<open>
  The first part of \<^verbatim>\<open>createPaymentRecord\<close>: the locals \<^verbatim>\<open>lease\<close>, \<^verbatim>\<open>property\<close> and
  \<^verbatim>\<open>tenant\<close> (the tenant by its key) after the \<^verbatim>\<open>if / else if / else\<close> on the two
  references of the body. A validated reference is a non-empty string, so it is truthy
  exactly when present.
\<close>

definition payment_references ::
  "store \<Rightarrow> string \<Rightarrow> CreatePaymentInput \<Rightarrow>
     error + (Lease option \<times> Property option \<times> string option)" where
  "payment_references s managerId paymentData =
     (case cpi_leaseId paymentData of
        Some leaseId \<Rightarrow>
          (case lease_of_manager s leaseId managerId of
             None \<Rightarrow> Inl LEASE_NOT_FOUND
           | Some lease \<Rightarrow>
               Inr (Some lease,
                    List.find (\<lambda>p. prop_id p = lease_propertyId lease) (properties s),
                    Some (lease_tenantId lease)))
      | None \<Rightarrow>
          (case cpi_propertyId paymentData of
             Some propertyId \<Rightarrow>
               (case List.find
                       (\<lambda>p. prop_id p = propertyId \<and> prop_managerId p = managerId)
                       (properties s) of
                  None \<Rightarrow> Inl PROPERTY_NOT_FOUND
                | Some property \<Rightarrow> Inr (None, Some property, None))
           | None \<Rightarrow> Inl MISSING_REFERENCE))"

text \<open>
  \<^verbatim>\<open>prisma.payment.create\<close> writes \<^verbatim>\<open>paymentData.propertyId || property?.id\<close>: a
  \<^verbatim>\<open>propertyId\<close> of the body is written as it came, also beside a \<^verbatim>\<open>leaseId\<close>, and the
  insert is refused when it names no property. The tenant and the lease of the new row
  come from rows that were read.
\<close>

definition createPaymentRecord ::
  "User option \<Rightarrow> CreatePaymentInput \<Rightarrow> store \<Rightarrow> (error + Payment) \<times> store" where
  "createPaymentRecord user paymentData s =
     (case user of
        None \<Rightarrow> (Inl AUTH_REQUIRED, s)
      | Some u \<Rightarrow>
          if user_role u \<noteq> Manager then (Inl ACCESS_DENIED, s)
          else
            (case payment_references s (user_id u) paymentData of
               Inl e \<Rightarrow> (Inl e, s)
             | Inr (lease, property, tenant0) \<Rightarrow>
                 (let tenant =
                       (if tenant0 = None \<and> lease \<noteq> None
                        then map_option lease_tenantId lease else tenant0)
                  in case tenant of
                       None \<Rightarrow> (Inl TENANT_REQUIRED, s)
                     | Some tenantId \<Rightarrow>
                         (let payment =
                               \<lparr> pay_id = uuid (map pay_id (payments s)),
                                 pay_tenantId = tenantId,
                                 pay_leaseId = cpi_leaseId paymentData,
                                 pay_propertyId =
                                   (case cpi_propertyId paymentData of
                                      Some propertyId \<Rightarrow> Some propertyId
                                    | None \<Rightarrow> map_option prop_id property),
                                 pay_amount = cpi_amount paymentData,
                                 pay_paymentType = cpi_paymentType paymentData,
                                 pay_method = cpi_method paymentData,
                                 pay_status = PAYMENT_PENDING,
                                 pay_paymentDate = cpi_paymentDate paymentData,
                                 pay_referenceId = cpi_referenceId paymentData,
                                 pay_note = cpi_note paymentData \<rparr>
                          in if \<not> references_property s (pay_propertyId payment)
                             then (Inl PAYMENT_CREATE_FAILED, s)
                             else (Inr payment, s\<lparr>payments := payments s @ [payment]\<rparr>)))))"

section \<open>Authentication middleware\<close>

text \<open>
  The claims of an identity-provider token that \<^verbatim>\<open>authenticate\<close> reads, and the value of
  \<^verbatim>\<open>jwt.decode(token, { complete: true })\<close>: the header's key id, the payload and the
  signature segment. The decoder is the token library's and is a parameter of the model,
  as is the outcome of \<^verbatim>\<open>getCognitoPublicKeys\<close> (the key set by key id, or \<open>None\<close> when
  fetching it throws).
\<close>

record Jwk =
  jwk_kid :: "string option"
  jwk_n :: "string option"

record CognitoTokenPayload =
  tok_sub :: string
  tok_email :: string
  tok_email_verified :: bool
  tok_custom_role :: "string option"
  tok_name :: "string option"
  tok_phone_number :: "string option"

record DecodedJwt =
  jwt_header_kid :: "string option"
  jwt_payload :: CognitoTokenPayload
  jwt_signature :: string

text \<open>\<^verbatim>\<open>String.prototype.includes\<close>.\<close>

fun str_includes :: "string \<Rightarrow> string \<Rightarrow> bool" where
  "str_includes [] sub = (sub = [])"
| "str_includes (c # cs) sub = (prefix sub (c # cs) \<or> str_includes cs sub)"

text \<open>
  The conversion of the provider's key document in \<^verbatim>\<open>getCognitoPublicKeys\<close>: every entry
  with a key id and a modulus becomes a PEM-framed string under its key id.
\<close>

definition public_key_pem :: "string \<Rightarrow> string" where
  "public_key_pem n =
     ''-----BEGIN RSA PUBLIC KEY-----'' @ [CHR 0x0A] @ n @ [CHR 0x0A] @
     ''-----END RSA PUBLIC KEY-----''"

definition keys_of_jwks :: "Jwk list \<Rightarrow> string \<Rightarrow> string option" where
  "keys_of_jwks jwks =
     fold (\<lambda>key keys.
             case jwk_kid key of
               None \<Rightarrow> keys
             | Some kid \<Rightarrow>
                 (case jwk_n key of
                    None \<Rightarrow> keys
                  | Some n \<Rightarrow>
                      if kid \<noteq> [] \<and> n \<noteq> [] then keys(kid \<mapsto> public_key_pem n) else keys))
          jwks Map.empty"

text \<open>
  The key set is a plain object, so \<^verbatim>\<open>publicKeys[keyId]\<close> answers a name that is not a
  key of its own from \<^verbatim>\<open>Object.prototype\<close>, with a value that is not falsy.
\<close>

definition object_prototype_names :: "string list" where
  "object_prototype_names =
     [''constructor'', ''__proto__'', ''hasOwnProperty'', ''isPrototypeOf'',
      ''propertyIsEnumerable'', ''toLocaleString'', ''toString'', ''valueOf'',
      ''__defineGetter__'', ''__defineSetter__'', ''__lookupGetter__'', ''__lookupSetter__'']"

text \<open>A thrown \<^verbatim>\<open>Error\<close> is its message.\<close>

definition verifyToken ::
  "(string \<Rightarrow> DecodedJwt option) \<Rightarrow> (string \<Rightarrow> string option) option \<Rightarrow> string \<Rightarrow>
     string + CognitoTokenPayload" where
  "verifyToken decode publicKeys token0 =
     (let token = (if prefix ''Bearer '' token0 then drop 7 token0 else token0) in
      case decode token of
        None \<Rightarrow> Inl ''Invalid token format''
      | Some decodedHeader \<Rightarrow>
          (case jwt_header_kid decodedHeader of
             None \<Rightarrow> Inl ''Invalid token format''
           | Some keyId \<Rightarrow>
               if keyId = [] then Inl ''Invalid token format''
               else
                 (case publicKeys of
                    None \<Rightarrow> Inl ''Failed to fetch authentication keys''
                  | Some keys \<Rightarrow>
                      (case keys keyId of
                         None \<Rightarrow>
                           if keyId \<in> set object_prototype_names
                           then Inr (jwt_payload decodedHeader)
                           else Inl ''Public key not found for token''
                       | Some publicKey \<Rightarrow>
                           if publicKey = [] then Inl ''Public key not found for token''
                           else Inr (jwt_payload decodedHeader)))))"

definition extractUserRole :: "CognitoTokenPayload \<Rightarrow> Role" where
  "extractUserRole tokenPayload =
     (case tok_custom_role tokenPayload of
        None \<Rightarrow> Tenant
      | Some role \<Rightarrow>
          if role = [] then Tenant
          else if role = ''tenant'' then Tenant
          else if role = ''manager'' then Manager
          else if role = ''admin'' then Admin
          else Tenant)"

text \<open>
  \<open>Inr user\<close>: \<^verbatim>\<open>req.user = user\<close> and \<^verbatim>\<open>next()\<close> is called. \<open>Inl e\<close>: the 401
  response with code \<open>e\<close>; the request goes no further.
\<close>

definition authenticate ::
  "(string \<Rightarrow> DecodedJwt option) \<Rightarrow> (string \<Rightarrow> string option) option \<Rightarrow> string option \<Rightarrow>
     error + User" where
  "authenticate decode publicKeys authorization =
     (case authorization of
        None \<Rightarrow> Inl AUTH_TOKEN_MISSING
      | Some authHeader \<Rightarrow>
          if \<not> prefix ''Bearer '' authHeader then Inl AUTH_TOKEN_MISSING
          else
            (case verifyToken decode publicKeys (drop 7 authHeader) of
               Inl message \<Rightarrow>
                 Inl (if str_includes message ''expired'' then AUTH_TOKEN_EXPIRED
                      else if str_includes message ''Invalid'' then AUTH_TOKEN_INVALID
                      else AUTH_FAILED)
             | Inr tokenPayload \<Rightarrow>
                 Inr \<lparr> user_id = tok_sub tokenPayload,
                       user_email = tok_email tokenPayload,
                       user_role = extractUserRole tokenPayload,
                       user_emailVerified = tok_email_verified tokenPayload,
                       user_name = tok_name tokenPayload,
                       user_phoneNumber = tok_phone_number tokenPayload \<rparr>))"

section \<open>Sequential runs of the API\<close>

text \<open>
  A request to one of the lifecycle handlers, with the user the middleware attached and
  the route parameter and body it carries. Requests are served one after the other; each
  leaves the store to the next.
\<close>

datatype request =
    SubmitApplication "User option" CreateApplicationInput
  | WithdrawApplication "User option" ident
  | UpdateApplicationStatus "User option" ident string
  | CreateLease "User option" CreateLeaseInput
  | UpdateLeaseStatus "User option" ident string
  | CreatePaymentRecord "User option" CreatePaymentInput

fun handle :: "request \<Rightarrow> store \<Rightarrow> store" where
  "handle (SubmitApplication user body) s = snd (submitApplication user body s)"
| "handle (WithdrawApplication user applicationId) s = snd (withdrawApplication user applicationId s)"
| "handle (UpdateApplicationStatus user applicationId status) s =
     snd (updateApplicationStatus user applicationId status s)"
| "handle (CreateLease user body) s = snd (createLease user body s)"
| "handle (UpdateLeaseStatus user leaseId status) s = snd (updateLeaseStatus user leaseId status s)"
| "handle (CreatePaymentRecord user body) s = snd (createPaymentRecord user body s)"

definition serve :: "request list \<Rightarrow> store \<Rightarrow> store" where
  "serve requests s = fold handle requests s"

text \<open>
  The lease invariant of the data model: no two ACTIVE leases of one property have
  overlapping date ranges, with the inclusive test of \<^verbatim>\<open>createLease\<close>.
\<close>

definition overlapping_active :: "Lease \<Rightarrow> Lease \<Rightarrow> bool" where
  "overlapping_active l l' =
     (lease_propertyId l = lease_propertyId l' \<and>
      lease_status l = ACTIVE \<and> lease_status l' = ACTIVE \<and>
      lease_startDate l \<le> lease_endDate l' \<and> lease_endDate l \<ge> lease_startDate l')"

fun no_overlapping_active_leases :: "Lease list \<Rightarrow> bool" where
  "no_overlapping_active_leases [] = True"
| "no_overlapping_active_leases (l # ls) =
     (\<not> list_ex (overlapping_active l) ls \<and> no_overlapping_active_leases ls)"

section \<open>A sample portfolio\<close>

text \<open>
  One property of manager \<open>m1\<close>, two registered tenants, a caller with the tenant role
  who has no \<^verbatim>\<open>Tenant\<close> row, and the requests of the lifecycle scenario:
  a lease for 2024-01-01 to 2024-12-31 and one for 2024-06-01 to 2024-06-30.
\<close>

definition house :: Property where
  "house = \<lparr> prop_id = 1, prop_title = ''House'', prop_managerId = ''m1'' \<rparr>"

definition manager1 :: User where
  "manager1 = \<lparr> user_id = ''m1'', user_email = ''m1@example.com'', user_role = Manager,
     user_emailVerified = True, user_name = None, user_phoneNumber = None \<rparr>"

definition tenant1 :: User where
  "tenant1 = \<lparr> user_id = ''t1'', user_email = ''t1@example.com'', user_role = Tenant,
     user_emailVerified = True, user_name = None, user_phoneNumber = None \<rparr>"

definition tenant2 :: User where
  "tenant2 = \<lparr> user_id = ''t2'', user_email = ''t2@example.com'', user_role = Tenant,
     user_emailVerified = True, user_name = None, user_phoneNumber = None \<rparr>"

definition unregistered :: User where
  "unregistered = \<lparr> user_id = ''t3'', user_email = ''t3@example.com'', user_role = Tenant,
     user_emailVerified = True, user_name = None, user_phoneNumber = None \<rparr>"

definition empty_portfolio :: store where
  "empty_portfolio = \<lparr> properties = [house], tenants = [''t1'', ''t2''],
     applications = [], leases = [], payments = [] \<rparr>"

definition apply_for_house :: CreateApplicationInput where
  "apply_for_house = \<lparr> cai_propertyId = 1, cai_fullName = ''A Tenant'',
     cai_email = ''t@example.com'', cai_phoneNumber = ''+923001234567'', cai_message = None \<rparr>"

definition lease_2024 :: "ident \<Rightarrow> CreateLeaseInput" where
  "lease_2024 applicationId = \<lparr> cli_propertyId = 1, cli_tenantId = ''t1'',
     cli_applicationId = Some applicationId,
     cli_startDate = 1704067200000, cli_endDate = 1735603200000,
     cli_rentAmount = 50000, cli_securityDeposit = 100000, cli_paymentDueDate = 1,
     cli_leaseAgreementUrl = None \<rparr>"

definition lease_june_2024 :: "ident \<Rightarrow> CreateLeaseInput" where
  "lease_june_2024 applicationId = \<lparr> cli_propertyId = 1, cli_tenantId = ''t2'',
     cli_applicationId = Some applicationId,
     cli_startDate = 1717200000000, cli_endDate = 1719705600000,
     cli_rentAmount = 50000, cli_securityDeposit = 100000, cli_paymentDueDate = 1,
     cli_leaseAgreementUrl = None \<rparr>"

text \<open>Both tenants apply and are approved.\<close>

definition application0 :: Application where
  "application0 = \<lparr> app_id = 0, app_propertyId = 1, app_tenantId = ''t1'',
     app_fullName = ''A Tenant'', app_email = ''t@example.com'',
     app_phoneNumber = ''+923001234567'', app_message = None, app_status = APPROVED \<rparr>"

definition application1 :: Application where
  "application1 = \<lparr> app_id = 1, app_propertyId = 1, app_tenantId = ''t2'',
     app_fullName = ''A Tenant'', app_email = ''t@example.com'',
     app_phoneNumber = ''+923001234567'', app_message = None, app_status = APPROVED \<rparr>"

definition two_approved :: store where
  "two_approved =
     serve [SubmitApplication (Some tenant1) apply_for_house,
            SubmitApplication (Some tenant2) apply_for_house,
            UpdateApplicationStatus (Some manager1) 0 ''APPROVED'',
            UpdateApplicationStatus (Some manager1) 1 ''APPROVED''] empty_portfolio"

text \<open>The first application becomes a lease, which is then signed.\<close>

definition lease0 :: Lease where
  "lease0 = \<lparr> lease_id = 0, lease_propertyId = 1, lease_tenantId = ''t1'',
     lease_applicationId = Some 0,
     lease_startDate = 1704067200000, lease_endDate = 1735603200000,
     lease_rentAmount = 50000, lease_securityDeposit = 100000, lease_paymentDueDate = 1,
     lease_leaseAgreementUrl = None, lease_status = PENDING_SIGNATURE \<rparr>"

definition lease1 :: Lease where
  "lease1 = \<lparr> lease_id = 1, lease_propertyId = 1, lease_tenantId = ''t2'',
     lease_applicationId = Some 1,
     lease_startDate = 1717200000000, lease_endDate = 1719705600000,
     lease_rentAmount = 50000, lease_securityDeposit = 100000, lease_paymentDueDate = 1,
     lease_leaseAgreementUrl = None, lease_status = PENDING_SIGNATURE \<rparr>"

definition with_pending_lease :: store where
  "with_pending_lease = serve [CreateLease (Some manager1) (lease_2024 0)] two_approved"

definition with_active_lease :: store where
  "with_active_lease = serve [UpdateLeaseStatus (Some manager1) 0 ''ACTIVE''] with_pending_lease"

text \<open>
  Both applications become leases while neither lease is active, and both leases are
  then signed.
\<close>

definition double_booking :: "request list" where
  "double_booking =
     [CreateLease (Some manager1) (lease_2024 0),
      CreateLease (Some manager1) (lease_june_2024 1),
      UpdateLeaseStatus (Some manager1) 0 ''ACTIVE'',
      UpdateLeaseStatus (Some manager1) 1 ''ACTIVE'']"



text \<open>The lease of the first application is terminated before it was ever signed.\<close>

definition with_terminated_lease :: store where
  "with_terminated_lease =
     serve [UpdateLeaseStatus (Some manager1) 0 ''TERMINATED''] with_pending_lease"

text \<open>A rent payment of 1 February 2024, against a lease or a property.\<close>

definition rent_payment :: "ident option \<Rightarrow> ident option \<Rightarrow> CreatePaymentInput" where
  "rent_payment leaseId propertyId = \<lparr> cpi_leaseId = leaseId, cpi_propertyId = propertyId,
     cpi_amount = 50000, cpi_paymentType = RENT, cpi_method = BANK_TRANSFER,
     cpi_paymentDate = 1706745600000, cpi_referenceId = None, cpi_note = None \<rparr>"

text \<open>
  The lease of the first application is signed and then terminated; in between, the
  second tenant applies again and is refused.
\<close>

definition later_requests :: "request list" where
  "later_requests =
     [UpdateLeaseStatus (Some manager1) 0 ''ACTIVE'',
      SubmitApplication (Some tenant2) apply_for_house,
      UpdateLeaseStatus (Some manager1) 0 ''TERMINATED'']"

text \<open>
  A token whose header names the key \<open>key-1\<close> and whose payload claims the manager
  \<open>m1\<close>, with an arbitrary signature segment; and the key set of an identity provider
  whose key document holds one key, of an arbitrary modulus, under \<open>key-1\<close>.
\<close>

definition claims_of_manager1 :: CognitoTokenPayload where
  "claims_of_manager1 = \<lparr> tok_sub = ''m1'', tok_email = ''m1@example.com'',
     tok_email_verified = True, tok_custom_role = Some ''manager'',
     tok_name = None, tok_phone_number = None \<rparr>"

definition decode_with_signature :: "string \<Rightarrow> string \<Rightarrow> DecodedJwt option" where
  "decode_with_signature signature token =
     Some \<lparr> jwt_header_kid = Some ''key-1'', jwt_payload = claims_of_manager1,
            jwt_signature = signature \<rparr>"

definition key_set :: "string \<Rightarrow> string \<Rightarrow> string option" where
  "key_set modulus = keys_of_jwks [\<lparr> jwk_kid = Some ''key-1'', jwk_n = Some modulus \<rparr>]"

section \<open>The sample portfolio, evaluated\<close>

lemmas sample_defs = house_def manager1_def tenant1_def tenant2_def empty_portfolio_def
  apply_for_house_def lease_2024_def lease_june_2024_def application0_def application1_def
  lease0_def lease1_def

lemmas query_defs = property_of_manager_def lease_of_manager_def approved_application_def
  application_of_tenant_def application_of_manager_def

lemma two_approved_eq:
  "two_approved =
     \<lparr> properties = [house], tenants = [''t1'', ''t2''],
       applications = [application0, application1],
       leases = [], payments = [] \<rparr>"
  by (simp add: two_approved_def serve_def submitApplication_def updateApplicationStatus_def
      sample_defs query_defs application_update_status_def Let_def)

lemma with_pending_lease_eq:
  "with_pending_lease =
     \<lparr> properties = [house], tenants = [''t1'', ''t2''],
       applications = [application0, application1],
       leases = [lease0], payments = [] \<rparr>"
  by (simp add: with_pending_lease_def two_approved_eq serve_def createLease_def
      sample_defs query_defs Let_def)

lemma with_active_lease_eq:
  "with_active_lease =
     \<lparr> properties = [house], tenants = [''t1'', ''t2''],
       applications = [application0, application1],
       leases = [lease0\<lparr>lease_status := ACTIVE\<rparr>], payments = [] \<rparr>"
  by (simp add: with_active_lease_def with_pending_lease_eq serve_def updateLeaseStatus_def
      validStatuses_def lease_update_status_def sample_defs query_defs Let_def)

lemma double_booking_eq:
  "serve double_booking two_approved =
     \<lparr> properties = [house], tenants = [''t1'', ''t2''],
       applications = [application0, application1],
       leases = [lease0\<lparr>lease_status := ACTIVE\<rparr>, lease1\<lparr>lease_status := ACTIVE\<rparr>],
       payments = [] \<rparr>"
  by (simp add: double_booking_def two_approved_eq serve_def createLease_def
      updateLeaseStatus_def validStatuses_def lease_update_status_def
      sample_defs query_defs Let_def)


section \<open>Queries\<close>

lemma find_SomeD: "List.find P xs = Some x \<Longrightarrow> x \<in> set xs \<and> P x"
  by (induction xs) (auto split: if_splits)

lemma find_None_iff_set: "List.find P xs = None \<longleftrightarrow> \<not> (\<exists>x\<in>set xs. P x)"
  by (induction xs) auto

lemma find_Some_ex: "\<exists>x\<in>set xs. P x \<Longrightarrow> \<exists>y. List.find P xs = Some y"
  by (cases "List.find P xs") (auto simp: find_None_iff_set)

section \<open>Lease creation\<close>

lemma createLease_approved:
  assumes "user_role u = Manager"
    and "approved_application s (cli_applicationId leaseData) (user_id u) = Some application"
  shows "createLease (Some u) leaseData s =
     (case List.find (\<lambda>l. lease_applicationId l = Some (app_id application)) (leases s) of
        Some existingLease \<Rightarrow>
          (Inl (LEASE_EXISTS (lease_id existingLease) (lease_status existingLease)), s)
      | None \<Rightarrow>
          (case List.find
                  (\<lambda>l. lease_propertyId l = app_propertyId application \<and>
                       lease_status l = ACTIVE \<and>
                       lease_startDate l \<le> cli_endDate leaseData \<and>
                       lease_endDate l \<ge> cli_startDate leaseData)
                  (leases s) of
             Some conflictingLease \<Rightarrow>
               (Inl (LEASE_CONFLICT (lease_id conflictingLease)
                       (lease_startDate conflictingLease)
                       (lease_endDate conflictingLease)), s)
           | None \<Rightarrow>
               (Inr \<lparr> lease_id = uuid (map lease_id (leases s)),
                      lease_propertyId = app_propertyId application,
                      lease_tenantId = app_tenantId application,
                      lease_applicationId = Some (app_id application),
                      lease_startDate = cli_startDate leaseData,
                      lease_endDate = cli_endDate leaseData,
                      lease_rentAmount = cli_rentAmount leaseData,
                      lease_securityDeposit = cli_securityDeposit leaseData,
                      lease_paymentDueDate = cli_paymentDueDate leaseData,
                      lease_leaseAgreementUrl = cli_leaseAgreementUrl leaseData,
                      lease_status = PENDING_SIGNATURE \<rparr>,
                s\<lparr>leases := leases s @
                   [\<lparr> lease_id = uuid (map lease_id (leases s)),
                      lease_propertyId = app_propertyId application,
                      lease_tenantId = app_tenantId application,
                      lease_applicationId = Some (app_id application),
                      lease_startDate = cli_startDate leaseData,
                      lease_endDate = cli_endDate leaseData,
                      lease_rentAmount = cli_rentAmount leaseData,
                      lease_securityDeposit = cli_securityDeposit leaseData,
                      lease_paymentDueDate = cli_paymentDueDate leaseData,
                      lease_leaseAgreementUrl = cli_leaseAgreementUrl leaseData,
                      lease_status = PENDING_SIGNATURE \<rparr>]\<rparr>)))"
  using assms by (simp add: createLease_def Let_def split: option.splits)

text \<open>
  Claim C2. For an approved application on a property of the requesting manager and a
  lease request for the dates \<open>[s2, e2]\<close>: if some lease of that property is ACTIVE with
  dates \<open>[s1, e1]\<close> such that \<open>s1 \<le> e2\<close> and \<open>e1 \<ge> s2\<close>, \<open>createLease\<close> answers 409
  (LEASE_CONFLICT, or LEASE_EXISTS when the application already has a lease) and leaves
  the store as it was; if there is no such lease and no lease references the application,
  the lease is created with status PENDING_SIGNATURE, the tenant and the property copied
  from the application.
\<close>

theorem createLease_conflict_or_created:
  assumes "user_role u = Manager"
    and "approved_application s (cli_applicationId leaseData) (user_id u) = Some application"
  shows
    "((\<exists>l\<in>set (leases s).
         lease_propertyId l = app_propertyId application \<and> lease_status l = ACTIVE \<and>
         lease_startDate l \<le> cli_endDate leaseData \<and>
         lease_endDate l \<ge> cli_startDate leaseData) \<longrightarrow>
        (\<exists>e. createLease (Some u) leaseData s = (Inl e, s) \<and> http_status e = 409 \<and>
           ((\<exists>i st. e = LEASE_EXISTS i st) \<or> (\<exists>i a b. e = LEASE_CONFLICT i a b)))) \<and>
     (\<not> (\<exists>l\<in>set (leases s).
         lease_propertyId l = app_propertyId application \<and> lease_status l = ACTIVE \<and>
         lease_startDate l \<le> cli_endDate leaseData \<and>
         lease_endDate l \<ge> cli_startDate leaseData) \<and>
      \<not> (\<exists>l\<in>set (leases s). lease_applicationId l = Some (app_id application)) \<longrightarrow>
        (\<exists>lease. createLease (Some u) leaseData s = (Inr lease, s\<lparr>leases := leases s @ [lease]\<rparr>) \<and>
           lease_status lease = PENDING_SIGNATURE \<and>
           lease_tenantId lease = app_tenantId application \<and>
           lease_propertyId lease = app_propertyId application \<and>
           lease_applicationId lease = Some (app_id application) \<and>
           lease_startDate lease = cli_startDate leaseData \<and>
           lease_endDate lease = cli_endDate leaseData))"
proof (intro conjI impI)
  let ?referenced = "\<lambda>l. lease_applicationId l = Some (app_id application)"
  let ?overlaps = "\<lambda>l. lease_propertyId l = app_propertyId application \<and> lease_status l = ACTIVE \<and>
         lease_startDate l \<le> cli_endDate leaseData \<and> lease_endDate l \<ge> cli_startDate leaseData"
  note unfolded = createLease_approved [OF assms]
  {
    assume "\<exists>l\<in>set (leases s). ?overlaps l"
    then obtain c where c: "List.find ?overlaps (leases s) = Some c"
      using find_Some_ex [of "leases s" ?overlaps] by blast
    show "\<exists>e. createLease (Some u) leaseData s = (Inl e, s) \<and> http_status e = 409 \<and>
           ((\<exists>i st. e = LEASE_EXISTS i st) \<or> (\<exists>i a b. e = LEASE_CONFLICT i a b))"
    proof (cases "List.find ?referenced (leases s)")
      case None
      then show ?thesis by (simp add: unfolded c)
    next
      case (Some e)
      then show ?thesis by (simp add: unfolded)
    qed
  }
  {
    assume "\<not> (\<exists>l\<in>set (leases s). ?overlaps l) \<and> \<not> (\<exists>l\<in>set (leases s). ?referenced l)"
    then have "List.find ?overlaps (leases s) = None" "List.find ?referenced (leases s) = None"
      by (simp_all add: find_None_iff_set)
    then show "\<exists>lease. createLease (Some u) leaseData s = (Inr lease, s\<lparr>leases := leases s @ [lease]\<rparr>) \<and>
           lease_status lease = PENDING_SIGNATURE \<and>
           lease_tenantId lease = app_tenantId application \<and>
           lease_propertyId lease = app_propertyId application \<and>
           lease_applicationId lease = Some (app_id application) \<and>
           lease_startDate lease = cli_startDate leaseData \<and>
           lease_endDate lease = cli_endDate leaseData"
      by (simp add: unfolded)
  }
qed

lemma createLease_InrD:
  assumes "createLease user leaseData s = (Inr lease, s')"
  shows "\<exists>u application. user = Some u \<and> user_role u = Manager \<and>
     approved_application s (cli_applicationId leaseData) (user_id u) = Some application \<and>
     lease_applicationId lease = Some (app_id application) \<and>
     s' = s\<lparr>leases := leases s @ [lease]\<rparr>"
proof -
  from assms obtain u where u: "user = Some u" "user_role u = Manager"
    by (cases user) (auto simp: createLease_def split: if_splits)
  from assms u obtain application where
    a: "approved_application s (cli_applicationId leaseData) (user_id u) = Some application"
    by (cases "approved_application s (cli_applicationId leaseData) (user_id u)")
       (auto simp: createLease_def)
  from assms show ?thesis
    unfolding u(1) createLease_approved [OF u(2) a]
    using u a by (auto split: option.splits)
qed


lemma approved_application_sample:
  "approved_application with_active_lease (cli_applicationId (lease_june_2024 1))
     (user_id manager1) = Some application1"
  "approved_application two_approved (cli_applicationId (lease_2024 0))
     (user_id manager1) = Some application0"
  by (simp_all add: with_active_lease_eq two_approved_eq sample_defs query_defs)

theorem createLease_conflict_or_created_witness:
  "user_role manager1 = Manager \<and>
   approved_application with_active_lease (cli_applicationId (lease_june_2024 1))
     (user_id manager1) = Some application1 \<and>
   createLease (Some manager1) (lease_june_2024 1) with_active_lease =
     (Inl (LEASE_CONFLICT 0 1704067200000 1735603200000), with_active_lease) \<and>
   (\<exists>e. createLease (Some manager1) (lease_june_2024 1) with_active_lease =
      (Inl e, with_active_lease) \<and> http_status e = 409) \<and>
   approved_application two_approved (cli_applicationId (lease_2024 0))
     (user_id manager1) = Some application0 \<and>
   (\<exists>lease. createLease (Some manager1) (lease_2024 0) two_approved =
      (Inr lease, two_approved\<lparr>leases := leases two_approved @ [lease]\<rparr>) \<and>
      lease_status lease = PENDING_SIGNATURE \<and> lease_tenantId lease = ''t1'' \<and>
      lease_propertyId lease = 1)"
proof -
  have m: "user_role manager1 = Manager" "user_id manager1 = ''m1''"
    by (simp_all add: manager1_def)
  note a1 = approved_application_sample(1) and a0 = approved_application_sample(2)
  have r: "createLease (Some manager1) (lease_june_2024 1) with_active_lease =
     (Inl (LEASE_CONFLICT 0 1704067200000 1735603200000), with_active_lease)"
    unfolding createLease_approved [OF m(1) a1]
    by (simp add: with_active_lease_eq sample_defs)
  have overlap: "\<exists>l\<in>set (leases with_active_lease).
      lease_propertyId l = app_propertyId application1 \<and> lease_status l = ACTIVE \<and>
      lease_startDate l \<le> cli_endDate (lease_june_2024 1) \<and>
      lease_endDate l \<ge> cli_startDate (lease_june_2024 1)"
    by (simp add: with_active_lease_eq sample_defs)
  have free: "\<not> (\<exists>l\<in>set (leases two_approved).
      lease_propertyId l = app_propertyId application0 \<and> lease_status l = ACTIVE \<and>
      lease_startDate l \<le> cli_endDate (lease_2024 0) \<and>
      lease_endDate l \<ge> cli_startDate (lease_2024 0)) \<and>
    \<not> (\<exists>l\<in>set (leases two_approved). lease_applicationId l = Some (app_id application0))"
    by (simp add: two_approved_eq)
  from createLease_conflict_or_created [OF m(1) a1] overlap
  have c1: "\<exists>e. createLease (Some manager1) (lease_june_2024 1) with_active_lease =
      (Inl e, with_active_lease) \<and> http_status e = 409"
    by blast
  from createLease_conflict_or_created [OF m(1) a0] free
  have "\<exists>lease. createLease (Some manager1) (lease_2024 0) two_approved =
      (Inr lease, two_approved\<lparr>leases := leases two_approved @ [lease]\<rparr>) \<and>
      lease_status lease = PENDING_SIGNATURE \<and>
      lease_tenantId lease = app_tenantId application0 \<and>
      lease_propertyId lease = app_propertyId application0"
    by blast
  then have c2: "\<exists>lease. createLease (Some manager1) (lease_2024 0) two_approved =
      (Inr lease, two_approved\<lparr>leases := leases two_approved @ [lease]\<rparr>) \<and>
      lease_status lease = PENDING_SIGNATURE \<and> lease_tenantId lease = ''t1'' \<and>
      lease_propertyId lease = 1"
    by (simp add: application0_def)
  from m(1) a1 r c1 a0 c2 show ?thesis
    by (intro conjI)
qed



section \<open>Lease transitions\<close>




lemma lease_of_manager_sample:
  "lease_of_manager with_pending_lease 0 (user_id manager1) = Some lease0"
  by (simp add: with_pending_lease_eq sample_defs query_defs)




section \<open>The lease invariant\<close>

text \<open>
  Claim C1. The claim is that no run of the API reaches a store in which two ACTIVE
  leases of one property overlap. \<open>createLease\<close> compares the requested dates with the
  ACTIVE leases only and \<open>updateLeaseStatus\<close> compares nothing, so the run below, from a
  store without leases, creates two overlapping leases while neither is signed and then
  activates both: the invariant holds before the run and fails after it.
\<close>

theorem activation_breaks_lease_invariant:
  "no_overlapping_active_leases (leases two_approved) \<and>
   leases (serve double_booking two_approved) =
     [lease0\<lparr>lease_status := ACTIVE\<rparr>, lease1\<lparr>lease_status := ACTIVE\<rparr>] \<and>
   overlapping_active (lease0\<lparr>lease_status := ACTIVE\<rparr>) (lease1\<lparr>lease_status := ACTIVE\<rparr>) \<and>
   \<not> no_overlapping_active_leases (leases (serve double_booking two_approved))"
proof -
  have "no_overlapping_active_leases (leases two_approved)"
    by (simp add: two_approved_eq)
  moreover have "overlapping_active (lease0\<lparr>lease_status := ACTIVE\<rparr>) (lease1\<lparr>lease_status := ACTIVE\<rparr>)"
    by (simp add: overlapping_active_def lease0_def lease1_def)
  ultimately show ?thesis
    by (simp add: double_booking_eq)
qed


section \<open>Applications\<close>


lemma with_terminated_lease_eq:
  "with_terminated_lease =
     \<lparr> properties = [house], tenants = [''t1'', ''t2''],
       applications = [application0, application1],
       leases = [lease0\<lparr>lease_status := TERMINATED\<rparr>], payments = [] \<rparr>"
  by (simp add: with_terminated_lease_def with_pending_lease_eq serve_def updateLeaseStatus_def
      validStatuses_def lease_update_status_def sample_defs query_defs Let_def)

lemma uuid_greater: "i \<in> set ids \<Longrightarrow> i < uuid ids"
  by (induction ids) auto

lemma uuid_fresh: "uuid ids \<notin> set ids"
  using uuid_greater [of "uuid ids" ids] by auto

lemma submitApplication_new:
  assumes "user_role u = Tenant"
    and "List.find (\<lambda>p. prop_id p = cai_propertyId applicationData) (properties s) = Some property"
    and "List.find
           (\<lambda>a. app_propertyId a = cai_propertyId applicationData \<and> app_tenantId a = user_id u)
           (applications s) = None"
  shows "submitApplication (Some u) applicationData s =
     (if user_id u \<notin> set (tenants s) then (Inl APPLICATION_SUBMIT_FAILED, s)
      else
        (Inr \<lparr> app_id = uuid (map app_id (applications s)),
               app_propertyId = cai_propertyId applicationData,
               app_tenantId = user_id u,
               app_fullName = cai_fullName applicationData,
               app_email = cai_email applicationData,
               app_phoneNumber = cai_phoneNumber applicationData,
               app_message = cai_message applicationData,
               app_status = PENDING \<rparr>,
         s\<lparr>applications := applications s @
            [\<lparr> app_id = uuid (map app_id (applications s)),
               app_propertyId = cai_propertyId applicationData,
               app_tenantId = user_id u,
               app_fullName = cai_fullName applicationData,
               app_email = cai_email applicationData,
               app_phoneNumber = cai_phoneNumber applicationData,
               app_message = cai_message applicationData,
               app_status = PENDING \<rparr>]\<rparr>))"
  using assms(1) by (simp add: submitApplication_def assms(2,3) Let_def)

text \<open>
  A caller with the tenant role and no \<^verbatim>\<open>Tenant\<close> row, who applies for an existing
  property for the first time, is answered 500 and nothing is written.
\<close>

lemma submitApplication_without_tenant_row:
  assumes "user_role u = Tenant"
    and "\<exists>p\<in>set (properties s). prop_id p = cai_propertyId applicationData"
    and "\<not> (\<exists>a\<in>set (applications s).
           app_propertyId a = cai_propertyId applicationData \<and> app_tenantId a = user_id u)"
    and "user_id u \<notin> set (tenants s)"
  shows "submitApplication (Some u) applicationData s = (Inl APPLICATION_SUBMIT_FAILED, s)"
proof -
  from assms(2) obtain property where
    p: "List.find (\<lambda>p. prop_id p = cai_propertyId applicationData) (properties s) = Some property"
    using find_Some_ex [of "properties s" "\<lambda>p. prop_id p = cai_propertyId applicationData"]
    by blast
  from assms(3) have
    n: "List.find
          (\<lambda>a. app_propertyId a = cai_propertyId applicationData \<and> app_tenantId a = user_id u)
          (applications s) = None"
    by (simp add: find_None_iff_set)
  show ?thesis
    using assms(4) by (simp add: submitApplication_new [OF assms(1) p n])
qed

lemma submitApplication_unregistered_sample:
  "submitApplication (Some unregistered) apply_for_house empty_portfolio =
     (Inl APPLICATION_SUBMIT_FAILED, empty_portfolio)"
proof -
  have "user_role unregistered = Tenant"
    by (simp add: unregistered_def)
  moreover have "\<exists>p\<in>set (properties empty_portfolio). prop_id p = cai_propertyId apply_for_house"
    by (simp add: empty_portfolio_def house_def apply_for_house_def)
  moreover have "\<not> (\<exists>a\<in>set (applications empty_portfolio).
      app_propertyId a = cai_propertyId apply_for_house \<and> app_tenantId a = user_id unregistered)"
    by (simp add: empty_portfolio_def)
  moreover have "user_id unregistered \<notin> set (tenants empty_portfolio)"
    by (simp add: empty_portfolio_def unregistered_def)
  ultimately show ?thesis
    by (rule submitApplication_without_tenant_row)
qed

text \<open>
  Claim C6. For a tenant (a caller with the tenant role whose id is a key of \<^verbatim>\<open>Tenant\<close>)
  and an existing property: if the store holds an application of that tenant for that
  property, whatever its status, \<open>submitApplication\<close> answers 409 APPLICATION_EXISTS (with
  the key and status of such an application) and writes nothing; if it holds none, a new
  application with status PENDING is appended under a fresh key and returned.
\<close>

theorem submitApplication_once_per_tenant_and_property:
  assumes "user_role u = Tenant"
    and "user_id u \<in> set (tenants s)"
    and "\<exists>p\<in>set (properties s). prop_id p = cai_propertyId applicationData"
  shows
    "((\<exists>a\<in>set (applications s).
         app_propertyId a = cai_propertyId applicationData \<and> app_tenantId a = user_id u) \<longrightarrow>
        (\<exists>a\<in>set (applications s).
           app_propertyId a = cai_propertyId applicationData \<and> app_tenantId a = user_id u \<and>
           submitApplication (Some u) applicationData s =
             (Inl (APPLICATION_EXISTS (app_id a) (app_status a)), s) \<and>
           http_status (APPLICATION_EXISTS (app_id a) (app_status a)) = 409)) \<and>
     (\<not> (\<exists>a\<in>set (applications s).
         app_propertyId a = cai_propertyId applicationData \<and> app_tenantId a = user_id u) \<longrightarrow>
        (\<exists>application.
           submitApplication (Some u) applicationData s =
             (Inr application, s\<lparr>applications := applications s @ [application]\<rparr>) \<and>
           app_status application = PENDING \<and>
           app_tenantId application = user_id u \<and>
           app_propertyId application = cai_propertyId applicationData \<and>
           app_id application \<notin> set (map app_id (applications s))))"
proof -
  let ?mine = "\<lambda>a. app_propertyId a = cai_propertyId applicationData \<and> app_tenantId a = user_id u"
  from assms(3) obtain property where
    p: "List.find (\<lambda>p. prop_id p = cai_propertyId applicationData) (properties s) = Some property"
    using find_Some_ex [of "properties s" "\<lambda>p. prop_id p = cai_propertyId applicationData"]
    by blast
  show ?thesis
  proof (cases "List.find ?mine (applications s)")
    case None
    then have n: "\<not> (\<exists>a\<in>set (applications s). ?mine a)"
      by (simp add: find_None_iff_set)
    show ?thesis
      using n assms(2) uuid_fresh [of "map app_id (applications s)"]
      by (simp add: submitApplication_new [OF assms(1) p None])
  next
    case (Some a)
    then have a: "a \<in> set (applications s)" "?mine a"
      by (auto dest: find_SomeD)
    have "submitApplication (Some u) applicationData s =
        (Inl (APPLICATION_EXISTS (app_id a) (app_status a)), s)"
      using assms(1) by (simp add: submitApplication_def p Some)
    then show ?thesis
      using a by auto
  qed
qed

theorem submitApplication_once_per_tenant_and_property_witness:
  "user_role tenant1 = Tenant \<and>
   user_id tenant1 \<in> set (tenants two_approved) \<and>
   (\<exists>p\<in>set (properties two_approved). prop_id p = cai_propertyId apply_for_house) \<and>
   submitApplication (Some tenant1) apply_for_house two_approved =
     (Inl (APPLICATION_EXISTS 0 APPROVED), two_approved) \<and>
   user_id tenant1 \<in> set (tenants empty_portfolio) \<and>
   (\<exists>p\<in>set (properties empty_portfolio). prop_id p = cai_propertyId apply_for_house) \<and>
   (\<exists>application.
      submitApplication (Some tenant1) apply_for_house empty_portfolio =
        (Inr application,
         empty_portfolio\<lparr>applications := applications empty_portfolio @ [application]\<rparr>) \<and>
      app_status application = PENDING)"
proof -
  have t: "user_role tenant1 = Tenant"
    by (simp add: tenant1_def)
  have r2: "user_id tenant1 \<in> set (tenants two_approved)"
    by (simp add: two_approved_eq tenant1_def)
  have r0: "user_id tenant1 \<in> set (tenants empty_portfolio)"
    by (simp add: empty_portfolio_def tenant1_def)
  have p2: "\<exists>p\<in>set (properties two_approved). prop_id p = cai_propertyId apply_for_house"
    by (simp add: two_approved_eq house_def apply_for_house_def)
  have p0: "\<exists>p\<in>set (properties empty_portfolio). prop_id p = cai_propertyId apply_for_house"
    by (simp add: empty_portfolio_def house_def apply_for_house_def)
  have mine: "\<exists>a\<in>set (applications two_approved).
      app_propertyId a = cai_propertyId apply_for_house \<and> app_tenantId a = user_id tenant1"
    by (simp add: two_approved_eq sample_defs)
  have only: "\<And>a. a \<in> set (applications two_approved) \<Longrightarrow>
      app_propertyId a = cai_propertyId apply_for_house \<and> app_tenantId a = user_id tenant1 \<Longrightarrow>
      app_id a = 0 \<and> app_status a = APPROVED"
    by (auto simp: two_approved_eq sample_defs)
  from submitApplication_once_per_tenant_and_property [OF t r2 p2] mine
  obtain a where "a \<in> set (applications two_approved)"
    and "app_propertyId a = cai_propertyId apply_for_house \<and> app_tenantId a = user_id tenant1"
    and "submitApplication (Some tenant1) apply_for_house two_approved =
      (Inl (APPLICATION_EXISTS (app_id a) (app_status a)), two_approved)"
    by blast
  with only have r: "submitApplication (Some tenant1) apply_for_house two_approved =
     (Inl (APPLICATION_EXISTS 0 APPROVED), two_approved)"
    by simp
  have none: "\<not> (\<exists>a\<in>set (applications empty_portfolio).
      app_propertyId a = cai_propertyId apply_for_house \<and> app_tenantId a = user_id tenant1)"
    by (simp add: empty_portfolio_def)
  from submitApplication_once_per_tenant_and_property [OF t r0 p0] none
  have c: "\<exists>application.
      submitApplication (Some tenant1) apply_for_house empty_portfolio =
        (Inr application,
         empty_portfolio\<lparr>applications := applications empty_portfolio @ [application]\<rparr>) \<and>
      app_status application = PENDING"
    by blast
  from t r2 p2 r r0 p0 c show ?thesis
    by (intro conjI)
qed

lemma withdrawApplication_found:
  assumes "user_role u = Tenant"
    and "application_of_tenant s applicationId (user_id u) = Some a"
  shows "withdrawApplication (Some u) applicationId s =
     (if app_status a \<noteq> PENDING then (Inl (INVALID_STATUS_FOR_WITHDRAWAL (app_status a)), s)
      else (Inr (a\<lparr>app_status := WITHDRAWN\<rparr>),
            s\<lparr>applications :=
                application_update_status applicationId WITHDRAWN (applications s)\<rparr>))"
  using assms by (simp add: withdrawApplication_def)


lemma updateApplicationStatus_found:
  assumes "user_role m = Manager"
    and "application_of_manager s applicationId (user_id m) = Some b"
    and "List.find (\<lambda>st. ApplicationStatus_name st = status) [APPROVED, REJECTED] = Some st"
  shows "updateApplicationStatus (Some m) applicationId status s =
     (if app_status b \<noteq> PENDING then (Inl (INVALID_STATUS_FOR_UPDATE (app_status b)), s)
      else (Inr (b\<lparr>app_status := st\<rparr>),
            s\<lparr>applications := application_update_status applicationId st (applications s)\<rparr>))"
  using assms(1,2) unfolding updateApplicationStatus_def assms(3) by simp





section \<open>Payments\<close>

lemma references_property_found:
  "references_property s (map_option prop_id (List.find (\<lambda>p. prop_id p = pid) (properties s)))"
  by (cases "List.find (\<lambda>p. prop_id p = pid) (properties s)")
     (auto simp: references_property_def list_ex_iff dest: find_SomeD)

lemma createPaymentRecord_with_lease:
  assumes "user_role u = Manager"
    and "cpi_leaseId paymentData = Some leaseId"
    and "lease_of_manager s leaseId (user_id u) = Some lease"
  shows "createPaymentRecord (Some u) paymentData s =
     (if \<not> references_property s (cpi_propertyId paymentData)
      then (Inl PAYMENT_CREATE_FAILED, s)
      else
        (Inr \<lparr> pay_id = uuid (map pay_id (payments s)),
               pay_tenantId = lease_tenantId lease,
               pay_leaseId = Some leaseId,
               pay_propertyId =
                 (case cpi_propertyId paymentData of
                    Some propertyId \<Rightarrow> Some propertyId
                  | None \<Rightarrow>
                      map_option prop_id
                        (List.find (\<lambda>p. prop_id p = lease_propertyId lease) (properties s))),
               pay_amount = cpi_amount paymentData,
               pay_paymentType = cpi_paymentType paymentData,
               pay_method = cpi_method paymentData,
               pay_status = PAYMENT_PENDING,
               pay_paymentDate = cpi_paymentDate paymentData,
               pay_referenceId = cpi_referenceId paymentData,
               pay_note = cpi_note paymentData \<rparr>,
         s\<lparr>payments := payments s @
            [\<lparr> pay_id = uuid (map pay_id (payments s)),
               pay_tenantId = lease_tenantId lease,
               pay_leaseId = Some leaseId,
               pay_propertyId =
                 (case cpi_propertyId paymentData of
                    Some propertyId \<Rightarrow> Some propertyId
                  | None \<Rightarrow>
                      map_option prop_id
                        (List.find (\<lambda>p. prop_id p = lease_propertyId lease) (properties s))),
               pay_amount = cpi_amount paymentData,
               pay_paymentType = cpi_paymentType paymentData,
               pay_method = cpi_method paymentData,
               pay_status = PAYMENT_PENDING,
               pay_paymentDate = cpi_paymentDate paymentData,
               pay_referenceId = cpi_referenceId paymentData,
               pay_note = cpi_note paymentData \<rparr>]\<rparr>))"
proof (cases "cpi_propertyId paymentData")
  case None
  have ok: "references_property s None"
    by (simp add: references_property_def)
  show ?thesis
    using assms references_property_found [of s "lease_propertyId lease"]
    by (simp add: createPaymentRecord_def payment_references_def Let_def None ok)
next
  case (Some propertyId)
  show ?thesis
    using assms
    by (simp add: createPaymentRecord_def payment_references_def Let_def Some)
qed

text \<open>
  A payment request that names a lease of the manager and, beside it, a property that
  does not exist is answered 500 and nothing is written, whatever the status of the lease.
\<close>

lemma createPaymentRecord_dangling_property:
  assumes "user_role u = Manager"
    and "cpi_leaseId paymentData = Some leaseId"
    and "lease_of_manager s leaseId (user_id u) = Some lease"
    and "\<not> references_property s (cpi_propertyId paymentData)"
  shows "createPaymentRecord (Some u) paymentData s = (Inl PAYMENT_CREATE_FAILED, s)"
  using assms(4) by (simp add: createPaymentRecord_with_lease [OF assms(1-3)])

lemma createPaymentRecord_property_only:
  assumes "user_role u = Manager"
    and "cpi_leaseId paymentData = None"
    and "cpi_propertyId paymentData = Some propertyId"
    and "\<exists>p\<in>set (properties s). prop_id p = propertyId \<and> prop_managerId p = user_id u"
  shows "createPaymentRecord (Some u) paymentData s = (Inl TENANT_REQUIRED, s)"
proof -
  from assms(4) obtain property where
    "List.find (\<lambda>p. prop_id p = propertyId \<and> prop_managerId p = user_id u) (properties s) =
       Some property"
    using find_Some_ex
      [of "properties s" "\<lambda>p. prop_id p = propertyId \<and> prop_managerId p = user_id u"]
    by blast
  then show ?thesis
    using assms(1-3) by (simp add: createPaymentRecord_def payment_references_def)
qed

lemma createPaymentRecord_InrD:
  assumes "createPaymentRecord user paymentData s = (Inr payment, s')"
  shows "\<exists>u leaseId lease. user = Some u \<and> user_role u = Manager \<and>
     cpi_leaseId paymentData = Some leaseId \<and>
     lease_of_manager s leaseId (user_id u) = Some lease"
proof -
  from assms obtain u where u: "user = Some u" "user_role u = Manager"
    by (cases user) (auto simp: createPaymentRecord_def split: if_splits)
  from assms u obtain leaseId where l: "cpi_leaseId paymentData = Some leaseId"
    by (cases "cpi_leaseId paymentData")
       (auto simp: createPaymentRecord_def payment_references_def
             split: option.splits if_splits)
  from assms u l obtain lease where "lease_of_manager s leaseId (user_id u) = Some lease"
    by (cases "lease_of_manager s leaseId (user_id u)")
       (auto simp: createPaymentRecord_def payment_references_def split: if_splits)
  with u l show ?thesis by blast
qed


text \<open>
  Claim C9. A payment request of a manager that names no lease but a property the manager
  owns is refused with 400 TENANT_REQUIRED and nothing is written. Hence every payment
  that is created names a lease of the manager, and its tenant is that lease's tenant;
  the request body has no field for a tenant.
\<close>

theorem createPaymentRecord_tenant_from_lease_only:
  "(user_role u = Manager \<and> cpi_leaseId paymentData = None \<and>
    cpi_propertyId paymentData = Some propertyId \<and>
    (\<exists>p\<in>set (properties s). prop_id p = propertyId \<and> prop_managerId p = user_id u) \<longrightarrow>
      createPaymentRecord (Some u) paymentData s = (Inl TENANT_REQUIRED, s) \<and>
      http_status TENANT_REQUIRED = 400) \<and>
   (createPaymentRecord user paymentData s = (Inr payment, s') \<longrightarrow>
      (\<exists>u leaseId lease. user = Some u \<and>
         cpi_leaseId paymentData = Some leaseId \<and>
         lease_of_manager s leaseId (user_id u) = Some lease \<and>
         pay_leaseId payment = Some leaseId \<and>
         pay_tenantId payment = lease_tenantId lease))"
proof (intro conjI impI)
  assume "user_role u = Manager \<and> cpi_leaseId paymentData = None \<and>
    cpi_propertyId paymentData = Some propertyId \<and>
    (\<exists>p\<in>set (properties s). prop_id p = propertyId \<and> prop_managerId p = user_id u)"
  then show "createPaymentRecord (Some u) paymentData s = (Inl TENANT_REQUIRED, s)"
    using createPaymentRecord_property_only [of u paymentData propertyId s] by blast
next
  show "http_status TENANT_REQUIRED = 400"
    by simp
next
  assume r: "createPaymentRecord user paymentData s = (Inr payment, s')"
  from createPaymentRecord_InrD [OF r] obtain u' leaseId lease where
    u: "user = Some u'" "user_role u' = Manager"
    and l: "cpi_leaseId paymentData = Some leaseId"
      "lease_of_manager s leaseId (user_id u') = Some lease"
    by blast
  from r have "pay_leaseId payment = Some leaseId \<and> pay_tenantId payment = lease_tenantId lease"
    unfolding u(1) createPaymentRecord_with_lease [OF u(2) l] by (auto split: if_splits)
  with u l show "\<exists>u leaseId lease. user = Some u \<and>
         cpi_leaseId paymentData = Some leaseId \<and>
         lease_of_manager s leaseId (user_id u) = Some lease \<and>
         pay_leaseId payment = Some leaseId \<and>
         pay_tenantId payment = lease_tenantId lease"
    by blast
qed

lemma lease_of_manager_terminated:
  "lease_of_manager with_terminated_lease 0 (user_id manager1) =
     Some (lease0\<lparr>lease_status := TERMINATED\<rparr>)"
  by (simp add: with_terminated_lease_eq sample_defs query_defs)

theorem createPaymentRecord_tenant_from_lease_only_witness:
  "user_role manager1 = Manager \<and>
   cpi_leaseId (rent_payment None (Some 1)) = None \<and>
   cpi_propertyId (rent_payment None (Some 1)) = Some 1 \<and>
   (\<exists>p\<in>set (properties with_pending_lease).
      prop_id p = 1 \<and> prop_managerId p = user_id manager1) \<and>
   createPaymentRecord (Some manager1) (rent_payment None (Some 1)) with_pending_lease =
     (Inl TENANT_REQUIRED, with_pending_lease) \<and>
   (\<exists>payment s'.
      createPaymentRecord (Some manager1) (rent_payment (Some 0) None) with_pending_lease =
        (Inr payment, s') \<and>
      pay_leaseId payment = Some 0 \<and> pay_tenantId payment = ''t1'')"
proof -
  have m: "user_role manager1 = Manager"
    by (simp add: manager1_def)
  have b: "cpi_leaseId (rent_payment None (Some 1)) = None"
    "cpi_propertyId (rent_payment None (Some 1)) = Some 1"
    by (simp_all add: rent_payment_def)
  have p: "\<exists>p\<in>set (properties with_pending_lease).
      prop_id p = 1 \<and> prop_managerId p = user_id manager1"
    by (simp add: with_pending_lease_eq house_def manager1_def)
  from createPaymentRecord_tenant_from_lease_only
    [of manager1 "rent_payment None (Some 1)" 1 with_pending_lease] m b p
  have r: "createPaymentRecord (Some manager1) (rent_payment None (Some 1)) with_pending_lease =
     (Inl TENANT_REQUIRED, with_pending_lease)"
    by blast
  have l: "cpi_leaseId (rent_payment (Some 0) None) = Some 0"
    by (simp add: rent_payment_def)
  obtain payment s' where
    c: "createPaymentRecord (Some manager1) (rent_payment (Some 0) None) with_pending_lease =
      (Inr payment, s')"
    using createPaymentRecord_with_lease [OF m l lease_of_manager_sample]
    by (simp add: rent_payment_def references_property_def)
  from createPaymentRecord_tenant_from_lease_only
    [where user = "Some manager1" and paymentData = "rent_payment (Some 0) None"
       and s = with_pending_lease and payment = payment and s' = s'] c
  obtain u leaseId lease where "Some manager1 = Some u"
    "cpi_leaseId (rent_payment (Some 0) None) = Some leaseId"
    "lease_of_manager with_pending_lease leaseId (user_id u) = Some lease"
    "pay_leaseId payment = Some leaseId" "pay_tenantId payment = lease_tenantId lease"
    by blast
  with l lease_of_manager_sample
  have "pay_leaseId payment = Some 0 \<and> pay_tenantId payment = lease_tenantId lease0"
    by auto
  then have "pay_leaseId payment = Some 0 \<and> pay_tenantId payment = ''t1''"
    by (simp add: lease0_def)
  with c have e: "\<exists>payment s'.
      createPaymentRecord (Some manager1) (rent_payment (Some 0) None) with_pending_lease =
        (Inr payment, s') \<and>
      pay_leaseId payment = Some 0 \<and> pay_tenantId payment = ''t1''"
    by blast
  from m b p r e show ?thesis
    by (intro conjI)
qed

lemma createPaymentRecord_dangling_sample:
  "createPaymentRecord (Some manager1) (rent_payment (Some 0) (Some 7)) with_terminated_lease =
     (Inl PAYMENT_CREATE_FAILED, with_terminated_lease)"
proof -
  have "user_role manager1 = Manager"
    by (simp add: manager1_def)
  moreover have "cpi_leaseId (rent_payment (Some 0) (Some 7)) = Some 0"
    by (simp add: rent_payment_def)
  moreover note lease_of_manager_terminated
  moreover have "\<not> references_property with_terminated_lease
      (cpi_propertyId (rent_payment (Some 0) (Some 7)))"
    by (simp add: rent_payment_def references_property_def with_terminated_lease_eq house_def)
  ultimately show ?thesis
    by (rule createPaymentRecord_dangling_property)
qed

text \<open>
  Claim C10. A payment request that names a lease of the requesting manager, and whose
  \<^verbatim>\<open>propertyId\<close>, if it has one, names an existing property, creates a payment with
  status PENDING whatever the status \<open>st\<close> of the lease is: a lease that was never signed,
  or one that has ended, takes payments like an active one.
\<close>

theorem createPaymentRecord_any_lease_status:
  assumes "user_role u = Manager"
    and "cpi_leaseId paymentData = Some leaseId"
    and "lease_of_manager s leaseId (user_id u) = Some lease"
    and "references_property s (cpi_propertyId paymentData)"
    and "lease_status lease = st"
  shows "\<exists>payment.
     createPaymentRecord (Some u) paymentData s =
       (Inr payment, s\<lparr>payments := payments s @ [payment]\<rparr>) \<and>
     pay_status payment = PAYMENT_PENDING \<and>
     pay_leaseId payment = Some leaseId \<and>
     pay_tenantId payment = lease_tenantId lease \<and>
     pay_amount payment = cpi_amount paymentData"
  using assms(4) by (simp add: createPaymentRecord_with_lease [OF assms(1-3)])

theorem createPaymentRecord_any_lease_status_witness:
  "user_role manager1 = Manager \<and>
   cpi_leaseId (rent_payment (Some 0) None) = Some 0 \<and>
   lease_of_manager with_terminated_lease 0 (user_id manager1) =
     Some (lease0\<lparr>lease_status := TERMINATED\<rparr>) \<and>
   references_property with_terminated_lease (cpi_propertyId (rent_payment (Some 0) None)) \<and>
   lease_status (lease0\<lparr>lease_status := TERMINATED\<rparr>) = TERMINATED \<and>
   (\<exists>payment.
      createPaymentRecord (Some manager1) (rent_payment (Some 0) None) with_terminated_lease =
        (Inr payment, with_terminated_lease\<lparr>payments := payments with_terminated_lease @ [payment]\<rparr>) \<and>
      pay_status payment = PAYMENT_PENDING) \<and>
   cpi_leaseId (rent_payment (Some 0) (Some 1)) = Some 0 \<and>
   lease_of_manager with_pending_lease 0 (user_id manager1) = Some lease0 \<and>
   references_property with_pending_lease (cpi_propertyId (rent_payment (Some 0) (Some 1))) \<and>
   lease_status lease0 = PENDING_SIGNATURE \<and>
   (\<exists>payment.
      createPaymentRecord (Some manager1) (rent_payment (Some 0) (Some 1)) with_pending_lease =
        (Inr payment, with_pending_lease\<lparr>payments := payments with_pending_lease @ [payment]\<rparr>) \<and>
      pay_status payment = PAYMENT_PENDING)"
proof -
  have m: "user_role manager1 = Manager"
    by (simp add: manager1_def)
  have l: "cpi_leaseId (rent_payment (Some 0) None) = Some 0"
    and l': "cpi_leaseId (rent_payment (Some 0) (Some 1)) = Some 0"
    by (simp_all add: rent_payment_def)
  have f: "references_property with_terminated_lease (cpi_propertyId (rent_payment (Some 0) None))"
    by (simp add: rent_payment_def references_property_def)
  have f': "references_property with_pending_lease
      (cpi_propertyId (rent_payment (Some 0) (Some 1)))"
    by (simp add: rent_payment_def references_property_def with_pending_lease_eq house_def)
  have t: "lease_status (lease0\<lparr>lease_status := TERMINATED\<rparr>) = TERMINATED"
    by simp
  have p: "lease_status lease0 = PENDING_SIGNATURE"
    by (simp add: lease0_def)
  from createPaymentRecord_any_lease_status [OF m l lease_of_manager_terminated f t]
  have e1: "\<exists>payment.
      createPaymentRecord (Some manager1) (rent_payment (Some 0) None) with_terminated_lease =
        (Inr payment, with_terminated_lease\<lparr>payments := payments with_terminated_lease @ [payment]\<rparr>) \<and>
      pay_status payment = PAYMENT_PENDING"
    by blast
  from createPaymentRecord_any_lease_status [OF m l' lease_of_manager_sample f' p]
  have e2: "\<exists>payment.
      createPaymentRecord (Some manager1) (rent_payment (Some 0) (Some 1)) with_pending_lease =
        (Inr payment, with_pending_lease\<lparr>payments := payments with_pending_lease @ [payment]\<rparr>) \<and>
      pay_status payment = PAYMENT_PENDING"
    by blast
  from m l lease_of_manager_terminated f t e1 l' lease_of_manager_sample f' p e2 show ?thesis
    by (intro conjI)
qed

section \<open>Authentication\<close>

text \<open>
  Claim C5. The claim is that \<open>authenticate\<close> attaches a token's claims only after the
  token's signature has been validated against the identity provider's public key.
  \<open>verifyToken\<close> decodes the token and looks the key up by the header's key id, but never
  checks the signature against it: whatever the signature segment and whatever the
  (non-empty) modulus of the key stored under the key id, the token below is accepted and
  the request goes on as manager \<open>m1\<close>.
\<close>

theorem authenticate_accepts_any_signature:
  "\<forall>signature c modulus.
     authenticate (decode_with_signature signature) (Some (key_set (c # modulus)))
       (Some ''Bearer header.payload.signature'') = Inr manager1"
  by (simp add: authenticate_def verifyToken_def decode_with_signature_def key_set_def
      keys_of_jwks_def public_key_pem_def claims_of_manager1_def extractUserRole_def
      manager1_def)

lemma authenticate_rejects_unknown_key:
  "authenticate (decode_with_signature signature) (Some Map.empty)
     (Some ''Bearer header.payload.signature'') = Inl AUTH_FAILED"
  by (simp add: authenticate_def verifyToken_def decode_with_signature_def
      object_prototype_names_def)

lemma authenticate_accepts_inherited_name:
  "authenticate (\<lambda>token. Some \<lparr> jwt_header_kid = Some ''constructor'',
       jwt_payload = claims_of_manager1, jwt_signature = signature \<rparr>) (Some Map.empty)
     (Some ''Bearer header.payload.signature'') = Inr manager1"
  by (simp add: authenticate_def verifyToken_def object_prototype_names_def
      claims_of_manager1_def extractUserRole_def manager1_def)

lemma authenticate_rejects_undecodable:
  "authenticate (\<lambda>token. None) keys (Some ''Bearer garbage'') = Inl AUTH_TOKEN_INVALID"
  by (simp add: authenticate_def verifyToken_def)


section \<open>What a request can change\<close>

lemma submitApplication_effect:
  "properties (snd (submitApplication user body s)) = properties s \<and>
   leases (snd (submitApplication user body s)) = leases s \<and>
   (applications (snd (submitApplication user body s)) = applications s \<or>
    (\<exists>a. app_id a = uuid (map app_id (applications s)) \<and>
       applications (snd (submitApplication user body s)) = applications s @ [a]))"
  by (auto simp: submitApplication_def Let_def split: option.splits)

lemma withdrawApplication_effect:
  "properties (snd (withdrawApplication user applicationId s)) = properties s \<and>
   leases (snd (withdrawApplication user applicationId s)) = leases s \<and>
   (applications (snd (withdrawApplication user applicationId s)) = applications s \<or>
    (\<exists>x st. x \<in> set (applications s) \<and> app_id x = applicationId \<and> app_status x = PENDING \<and>
       applications (snd (withdrawApplication user applicationId s)) =
         application_update_status applicationId st (applications s)))"
proof (cases "\<exists>u. user = Some u \<and> user_role u = Tenant")
  case False
  then show ?thesis
    by (cases user) (simp_all add: withdrawApplication_def)
next
  case True
  then obtain u where u: "user = Some u" "user_role u = Tenant"
    by blast
  show ?thesis
  proof (cases "application_of_tenant s applicationId (user_id u)")
    case None
    then show ?thesis
      by (simp add: withdrawApplication_def u)
  next
    case (Some x)
    then have "x \<in> set (applications s) \<and> app_id x = applicationId"
      unfolding application_of_tenant_def by (auto dest: find_SomeD)
    then show ?thesis
      unfolding u(1) withdrawApplication_found [OF u(2) Some] by auto
  qed
qed

lemma updateApplicationStatus_effect:
  "properties (snd (updateApplicationStatus user applicationId status s)) = properties s \<and>
   leases (snd (updateApplicationStatus user applicationId status s)) = leases s \<and>
   (applications (snd (updateApplicationStatus user applicationId status s)) = applications s \<or>
    (\<exists>x st. x \<in> set (applications s) \<and> app_id x = applicationId \<and> app_status x = PENDING \<and>
       applications (snd (updateApplicationStatus user applicationId status s)) =
         application_update_status applicationId st (applications s)))"
proof (cases "\<exists>u. user = Some u \<and> user_role u = Manager")
  case False
  then show ?thesis
    by (cases user) (simp_all add: updateApplicationStatus_def)
next
  case True
  then obtain u where u: "user = Some u" "user_role u = Manager"
    by blast
  show ?thesis
  proof (cases "List.find (\<lambda>st. ApplicationStatus_name st = status) [APPROVED, REJECTED]")
    case None
    then show ?thesis
      unfolding updateApplicationStatus_def None by (simp add: u)
  next
    case st: (Some st)
    show ?thesis
    proof (cases "application_of_manager s applicationId (user_id u)")
      case None
      then show ?thesis
        unfolding updateApplicationStatus_def st by (simp add: u)
    next
      case (Some x)
      then have "x \<in> set (applications s) \<and> app_id x = applicationId"
        unfolding application_of_manager_def by (auto dest: find_SomeD)
      then show ?thesis
        unfolding u(1) updateApplicationStatus_found [OF u(2) Some st] by auto
    qed
  qed
qed

lemma createLease_effect:
  "properties (snd (createLease user body s)) = properties s \<and>
   applications (snd (createLease user body s)) = applications s \<and>
   (leases (snd (createLease user body s)) = leases s \<or>
    (\<exists>l. leases (snd (createLease user body s)) = leases s @ [l]))"
  by (auto simp: createLease_def Let_def split: option.splits)

lemma updateLeaseStatus_effect:
  "properties (snd (updateLeaseStatus user leaseId status s)) = properties s \<and>
   applications (snd (updateLeaseStatus user leaseId status s)) = applications s \<and>
   (leases (snd (updateLeaseStatus user leaseId status s)) = leases s \<or>
    (\<exists>st. leases (snd (updateLeaseStatus user leaseId status s)) =
       lease_update_status leaseId st (leases s)))"
  by (auto simp: updateLeaseStatus_def Let_def split: option.splits)

lemma createPaymentRecord_effect:
  "properties (snd (createPaymentRecord user body s)) = properties s \<and>
   applications (snd (createPaymentRecord user body s)) = applications s \<and>
   leases (snd (createPaymentRecord user body s)) = leases s"
  by (auto simp: createPaymentRecord_def Let_def
      split: option.splits sum.splits prod.splits if_splits)


section \<open>Runs keep approved applications and their leases\<close>

lemma application_update_status_ids [simp]:
  "map app_id (application_update_status i st as) = map app_id as"
  by (simp add: application_update_status_def comp_def if_distrib cong: if_cong)

lemma applications_step:
  assumes "distinct (map app_id as)" and "a \<in> set as" and "app_status a = APPROVED"
    and "as' = as \<or>
      (\<exists>b. app_id b = uuid (map app_id as) \<and> as' = as @ [b]) \<or>
      (\<exists>x st. x \<in> set as \<and> app_id x = i \<and> app_status x = PENDING \<and>
         as' = application_update_status i st as)"
  shows "distinct (map app_id as') \<and> a \<in> set as'"
proof -
  from assms(4) consider (same) "as' = as"
    | (new) b where "app_id b = uuid (map app_id as)" "as' = as @ [b]"
    | (upd) x st where "x \<in> set as" "app_id x = i" "app_status x = PENDING"
        "as' = application_update_status i st as"
    by blast
  then show ?thesis
  proof cases
    case same
    with assms show ?thesis by simp
  next
    case new
    with assms uuid_fresh [of "map app_id as"] show ?thesis by simp
  next
    case upd
    from assms(1) have inj: "inj_on app_id (set as)"
      by (simp add: distinct_map)
    have "app_id a \<noteq> i"
    proof
      assume "app_id a = i"
      with upd(1,2) assms(2) inj have "a = x"
        by (auto dest: inj_onD)
      with upd(3) assms(3) show False by simp
    qed
    with assms(2) have "a \<in> set (application_update_status i st as)"
      by (force simp: application_update_status_def)
    with assms(1) upd(4) show ?thesis by simp
  qed
qed

lemma leases_step:
  assumes "\<exists>l\<in>set ls. lease_applicationId l = Some i"
    and "ls' = ls \<or> (\<exists>l. ls' = ls @ [l]) \<or> (\<exists>st. ls' = lease_update_status j st ls)"
  shows "\<exists>l\<in>set ls'. lease_applicationId l = Some i"
proof -
  from assms(1) obtain l where l: "l \<in> set ls" "lease_applicationId l = Some i"
    by blast
  from assms(2) consider (same) "ls' = ls" | (new) l' where "ls' = ls @ [l']"
    | (upd) st where "ls' = lease_update_status j st ls"
    by blast
  then show ?thesis
  proof cases
    case same
    with l show ?thesis by blast
  next
    case new
    with l show ?thesis by auto
  next
    case upd
    let ?f = "\<lambda>l. if lease_id l = j then l\<lparr>lease_status := st\<rparr> else l"
    from l(1) have "?f l \<in> set ls'"
      unfolding upd lease_update_status_def by (simp del: if_split)
    moreover from l(2) have "lease_applicationId (?f l) = Some i"
      by simp
    ultimately show ?thesis by blast
  qed
qed

lemma handle_keeps:
  assumes "distinct (map app_id (applications s))"
    and "a \<in> set (applications s)" and "app_status a = APPROVED"
    and "\<exists>l\<in>set (leases s). lease_applicationId l = Some i"
  shows "properties (handle r s) = properties s \<and>
     distinct (map app_id (applications (handle r s))) \<and>
     a \<in> set (applications (handle r s)) \<and>
     (\<exists>l\<in>set (leases (handle r s)). lease_applicationId l = Some i)"
proof (cases r)
  case (SubmitApplication user body)
  note e = submitApplication_effect [of user body s]
  from e applications_step [OF assms(1-3), of "applications (handle r s)"]
  have "distinct (map app_id (applications (handle r s))) \<and> a \<in> set (applications (handle r s))"
    unfolding SubmitApplication by auto
  with e assms(4) show ?thesis
    unfolding SubmitApplication by simp
next
  case (WithdrawApplication user applicationId)
  note e = withdrawApplication_effect [of user applicationId s]
  from e applications_step [OF assms(1-3), of "applications (handle r s)" applicationId]
  have "distinct (map app_id (applications (handle r s))) \<and> a \<in> set (applications (handle r s))"
    unfolding WithdrawApplication by auto
  with e assms(4) show ?thesis
    unfolding WithdrawApplication by simp
next
  case (UpdateApplicationStatus user applicationId status)
  note e = updateApplicationStatus_effect [of user applicationId status s]
  from e applications_step [OF assms(1-3), of "applications (handle r s)" applicationId]
  have "distinct (map app_id (applications (handle r s))) \<and> a \<in> set (applications (handle r s))"
    unfolding UpdateApplicationStatus by auto
  with e assms(4) show ?thesis
    unfolding UpdateApplicationStatus by simp
next
  case (CreateLease user body)
  note e = createLease_effect [of user body s]
  from e leases_step [OF assms(4), of "leases (handle r s)"]
  have "\<exists>l\<in>set (leases (handle r s)). lease_applicationId l = Some i"
    unfolding CreateLease by auto
  with e assms(1-3) show ?thesis
    unfolding CreateLease by simp
next
  case (UpdateLeaseStatus user leaseId status)
  note e = updateLeaseStatus_effect [of user leaseId status s]
  from e leases_step [OF assms(4), of "leases (handle r s)" leaseId]
  have "\<exists>l\<in>set (leases (handle r s)). lease_applicationId l = Some i"
    unfolding UpdateLeaseStatus by auto
  with e assms(1-3) show ?thesis
    unfolding UpdateLeaseStatus by simp
next
  case (CreatePaymentRecord user body)
  with createPaymentRecord_effect [of user body s] assms show ?thesis
    by simp
qed

lemma serve_keeps:
  assumes "distinct (map app_id (applications s))"
    and "a \<in> set (applications s)" and "app_status a = APPROVED"
    and "\<exists>l\<in>set (leases s). lease_applicationId l = Some i"
  shows "properties (serve requests s) = properties s \<and>
     a \<in> set (applications (serve requests s)) \<and>
     (\<exists>l\<in>set (leases (serve requests s)). lease_applicationId l = Some i)"
  using assms
proof (induction requests arbitrary: s)
  case Nil
  then show ?case by (simp add: serve_def)
next
  case (Cons r requests)
  note k = handle_keeps [OF Cons.prems, of r]
  from k have "properties (serve requests (handle r s)) = properties (handle r s) \<and>
     a \<in> set (applications (serve requests (handle r s))) \<and>
     (\<exists>l\<in>set (leases (serve requests (handle r s))). lease_applicationId l = Some i)"
    by (intro Cons.IH) (simp_all add: Cons.prems(3))
  with k show ?case
    by (simp add: serve_def)
qed

lemma createLease_consumed:
  assumes "\<exists>l\<in>set (leases s). lease_applicationId l = Some applicationId"
    and "cli_applicationId leaseData = Some applicationId"
  shows "\<exists>e. createLease user leaseData s = (Inl e, s)"
proof (cases "\<exists>u. user = Some u \<and> user_role u = Manager")
  case False
  then show ?thesis
    by (cases user) (simp_all add: createLease_def)
next
  case True
  then obtain u where u: "user = Some u" "user_role u = Manager"
    by blast
  show ?thesis
  proof (cases "approved_application s (cli_applicationId leaseData) (user_id u)")
    case None
    then show ?thesis
      by (simp add: createLease_def u)
  next
    case (Some a)
    then have "app_id a = applicationId"
      unfolding approved_application_def assms(2) by (auto dest: find_SomeD)
    with assms(1) obtain e where
      "List.find (\<lambda>l. lease_applicationId l = Some (app_id a)) (leases s) = Some e"
      using find_Some_ex [of "leases s" "\<lambda>l. lease_applicationId l = Some (app_id a)"]
      by auto
    then show ?thesis
      unfolding u(1) createLease_approved [OF u(2) Some] by simp
  qed
qed


text \<open>
  Claim C4. Once \<open>createLease\<close> has succeeded for an application (in a store whose
  application keys are unique), then after any further requests to the lifecycle handlers,
  whatever they did to the status of that lease, a \<open>createLease\<close> of the same manager
  naming the same application answers 409 LEASE_EXISTS with the key and status of a lease
  of that application, and no caller's \<open>createLease\<close> naming it succeeds; the store is
  left as it was.
\<close>

theorem createLease_consumes_application_once:
  assumes "distinct (map app_id (applications s))"
    and "createLease (Some u) leaseData s = (Inr lease, s1)"
    and "cli_applicationId leaseData = Some applicationId"
    and "cli_applicationId leaseData' = Some applicationId"
  shows
    "(\<exists>existing\<in>set (leases (serve requests s1)).
        lease_applicationId existing = Some applicationId \<and>
        createLease (Some u) leaseData' (serve requests s1) =
          (Inl (LEASE_EXISTS (lease_id existing) (lease_status existing)), serve requests s1) \<and>
        http_status (LEASE_EXISTS (lease_id existing) (lease_status existing)) = 409) \<and>
     (\<forall>user'. \<exists>e. createLease user' leaseData' (serve requests s1) =
        (Inl e, serve requests s1))"
proof -
  let ?s2 = "serve requests s1"
  from createLease_InrD [OF assms(2)] obtain a where
    m: "user_role u = Manager"
    and a: "approved_application s (cli_applicationId leaseData) (user_id u) = Some a"
    and l: "lease_applicationId lease = Some (app_id a)"
    and s1: "s1 = s\<lparr>leases := leases s @ [lease]\<rparr>"
    by auto
  let ?P = "\<lambda>ps a. where_eq (Some applicationId) (app_id a) \<and> app_status a = APPROVED \<and>
      list_ex (\<lambda>p. prop_id p = app_propertyId a \<and> prop_managerId p = user_id u) ps"
  from a have pa: "a \<in> set (applications s)" "?P (properties s) a"
    unfolding approved_application_def property_of_manager_def assms(3)
    by (auto dest: find_SomeD)
  then have id: "app_id a = applicationId" and st: "app_status a = APPROVED"
    by simp_all
  have "distinct (map app_id (applications s1))" "a \<in> set (applications s1)"
    "\<exists>l\<in>set (leases s1). lease_applicationId l = Some applicationId"
    using assms(1) pa(1) l id by (simp_all add: s1)
  from serve_keeps [OF this(1,2) st this(3), of requests]
  have ps: "properties ?s2 = properties s"
    and a2: "a \<in> set (applications ?s2)"
    and c2: "\<exists>l\<in>set (leases ?s2). lease_applicationId l = Some applicationId"
    by (simp_all add: s1)
  from a2 pa(2) ps have "\<exists>x\<in>set (applications ?s2). ?P (properties ?s2) x"
    by auto
  then obtain a' where
    a': "approved_application ?s2 (cli_applicationId leaseData') (user_id u) = Some a'"
    unfolding approved_application_def property_of_manager_def assms(4)
    using find_Some_ex [of "applications ?s2" "?P (properties ?s2)"] by blast
  then have id': "app_id a' = applicationId"
    unfolding approved_application_def assms(4) by (auto dest: find_SomeD)
  from c2 obtain existing where
    f: "List.find (\<lambda>l. lease_applicationId l = Some (app_id a')) (leases ?s2) = Some existing"
    using find_Some_ex [of "leases ?s2" "\<lambda>l. lease_applicationId l = Some (app_id a')"] id'
    by auto
  then have e: "existing \<in> set (leases ?s2)" "lease_applicationId existing = Some applicationId"
    using id' by (auto dest: find_SomeD)
  have "createLease (Some u) leaseData' ?s2 =
      (Inl (LEASE_EXISTS (lease_id existing) (lease_status existing)), ?s2)"
    unfolding createLease_approved [OF m a'] by (simp add: f)
  with e have first: "\<exists>existing\<in>set (leases ?s2).
        lease_applicationId existing = Some applicationId \<and>
        createLease (Some u) leaseData' ?s2 =
          (Inl (LEASE_EXISTS (lease_id existing) (lease_status existing)), ?s2) \<and>
        http_status (LEASE_EXISTS (lease_id existing) (lease_status existing)) = 409"
    by auto
  have "\<forall>user'. \<exists>e. createLease user' leaseData' ?s2 = (Inl e, ?s2)"
    using createLease_consumed [OF c2 assms(4)] by blast
  with first show ?thesis
    by blast
qed

lemma after_later_requests:
  "serve later_requests with_pending_lease =
     \<lparr> properties = [house], tenants = [''t1'', ''t2''],
       applications = [application0, application1],
       leases = [lease0\<lparr>lease_status := TERMINATED\<rparr>], payments = [] \<rparr>"
  by (simp add: later_requests_def with_pending_lease_eq serve_def updateLeaseStatus_def
      submitApplication_def validStatuses_def lease_update_status_def sample_defs query_defs
      Let_def)

theorem createLease_consumes_application_once_witness:
  "distinct (map app_id (applications two_approved)) \<and>
   createLease (Some manager1) (lease_2024 0) two_approved = (Inr lease0, with_pending_lease) \<and>
   cli_applicationId (lease_2024 0) = Some 0 \<and>
   cli_applicationId (lease_june_2024 0) = Some 0 \<and>
   createLease (Some manager1) (lease_june_2024 0) (serve later_requests with_pending_lease) =
     (Inl (LEASE_EXISTS 0 TERMINATED), serve later_requests with_pending_lease)"
proof -
  have d: "distinct (map app_id (applications two_approved))"
    by (simp add: two_approved_eq application0_def application1_def)
  have r: "createLease (Some manager1) (lease_2024 0) two_approved = (Inr lease0, with_pending_lease)"
    by (simp add: with_pending_lease_eq two_approved_eq createLease_def sample_defs query_defs Let_def)
  have i: "cli_applicationId (lease_2024 0) = Some 0" "cli_applicationId (lease_june_2024 0) = Some 0"
    by (simp_all add: lease_2024_def lease_june_2024_def)
  have only: "\<And>l. l \<in> set (leases (serve later_requests with_pending_lease)) \<Longrightarrow>
      lease_id l = 0 \<and> lease_status l = TERMINATED"
    by (simp add: after_later_requests lease0_def)
  from createLease_consumes_application_once [OF d r i, of later_requests]
  obtain existing where "existing \<in> set (leases (serve later_requests with_pending_lease))"
    and "createLease (Some manager1) (lease_june_2024 0) (serve later_requests with_pending_lease) =
      (Inl (LEASE_EXISTS (lease_id existing) (lease_status existing)),
       serve later_requests with_pending_lease)"
    by blast
  with only have c: "createLease (Some manager1) (lease_june_2024 0)
      (serve later_requests with_pending_lease) =
     (Inl (LEASE_EXISTS 0 TERMINATED), serve later_requests with_pending_lease)"
    by simp
  from d r i c show ?thesis
    by (intro conjI)
qed


end
